theory Spec2Isabelle
  imports Main "HOL-Library.Word"
begin

unbundle bit_operations_syntax

section \<open>Data model of package blockstores\<close>

type_synonym byte = "8 word"

text \<open>
  Go's \<open>uint64\<close> and \<open>uint32\<close> are \<open>64 word\<close> and \<open>32 word\<close>; a Go \<open>string\<close> is a
  \<open>string\<close>; a \<open>[]byte\<close> is a \<open>byte list\<close>; a \<open>map[string]Volume\<close> is a map
  \<open>string \<rightharpoonup> Volume\<close> (the nil map, on which an assignment panics, is not a value of this
  type: a record decoded by \<open>LoadConfig\<close> is taken to hold a map).
\<close>

subsection \<open>Errors\<close>

text \<open>
  One constructor for each \<open>fmt.Errorf\<close> of the package, with the values it formats;
  \<open>External\<close> is an error value handed back by a driver, by package \<open>utils\<close> or by
  \<open>encoding/json\<close>; \<open>Panic\<close> is a run-time panic of Go (slice bounds out of range,
  integer divide by zero).
\<close>

datatype error =
    DriverAlreadyRegistered string
  | DriverNotSupported string
  | VolumeAlreadyExists string string
  | VolumeConfigAlreadyExisted
  | VolumeDoesntExist string string
  | CannotFindVolume string string
  | LastSnapshotDoesntExist string
  | DifferentBlockSizes
  | External string
  | Panic string

subsection \<open>The delta description of package metadata\<close>

text \<open>
  Modelled from the spec: package \<open>metadata\<close> is not among the sources. The delta is
  \<open>{ block_size: u32, mappings: [{offset: u64, size: u64}] }\<close>; \<open>BackupSnapshot\<close> reads the
  fields \<open>BlockSize\<close>, \<open>Mappings\<close>, \<open>Offset\<close> and \<open>Size\<close>.
\<close>

record Mapping =
  Offset :: "64 word"
  Size :: "64 word"

record Mappings =
  Mappings :: "Mapping list"
  BlockSize :: "32 word"

subsection \<open>The structs of blockstores.go\<close>

record Volume =
  Size :: "64 word"
  Base :: string
  LastSnapshotId :: string

record BlockStore =
  Kind :: string
  BlockSize :: "32 word"
  Volumes :: "string \<rightharpoonup> Volume"

record BlockMapping =
  Offset :: "64 word"
  Block :: string

text \<open>
  The field \<open>Id\<close> of \<open>SnapshotMap\<close> is written \<open>Id'\<close> and a parameter \<open>id\<close> is written \<open>id'\<close>:
  \<open>Id\<close> and \<open>id\<close> are the identity relation and the identity function of HOL.
\<close>

record SnapshotMap =
  Id' :: string
  Blocks :: "BlockMapping list"

subsection \<open>The interfaces\<close>

text \<open>
  \<open>BlockStoreDriver\<close> (lines 32-41) over a remote store of type \<open>'r\<close>. The queries
  \<open>FileExists\<close>, \<open>FileSize\<close> and \<open>Read\<close> read the store; the other methods hand back the
  store they leave behind together with their error (\<open>None\<close> is Go's \<open>nil\<close>), since a
  failing call may have changed it. \<open>FileSize\<close> returns an \<open>int64\<close>, of which only the
  sign and, as a buffer length, the value are used. \<open>Read\<close> takes the buffer it fills.
\<close>

record 'r BlockStoreDriver =
  DriverKind :: string
  FileExists :: "'r \<Rightarrow> string \<Rightarrow> string \<Rightarrow> bool"
  FileSize :: "'r \<Rightarrow> string \<Rightarrow> string \<Rightarrow> int"
  MkDirAll :: "'r \<Rightarrow> string \<Rightarrow> 'r \<times> error option"
  RemoveAll :: "'r \<Rightarrow> string \<Rightarrow> 'r \<times> error option"
  Read :: "'r \<Rightarrow> string \<Rightarrow> string \<Rightarrow> byte list \<Rightarrow> error + byte list"
  Write :: "'r \<Rightarrow> byte list \<Rightarrow> string \<Rightarrow> string \<Rightarrow> 'r \<times> error option"
  CopyToPath :: "'r \<Rightarrow> string \<Rightarrow> string \<Rightarrow> 'r \<times> error option"

text \<open>
  Modelled from the spec: \<open>drivers.Driver\<close>, the local snapshot source, is not among the
  sources. \<open>BackupSnapshot\<close> calls \<open>CompareSnapshot(new, old, volume, &delta)\<close> and
  \<open>ReadSnapshot(snapshot, volume, offset, buf)\<close>. The source has a state of type \<open>'s\<close> that
  every call may change, so that a call is visible in the state it leaves.
\<close>

record 's Driver =
  CompareSnapshot :: "'s \<Rightarrow> string \<Rightarrow> string \<Rightarrow> string \<Rightarrow> 's \<times> (error + Mappings)"
  ReadSnapshot :: "'s \<Rightarrow> string \<Rightarrow> string \<Rightarrow> 64 word \<Rightarrow> byte list \<Rightarrow> 's \<times> (error + byte list)"

text \<open>The array type \<open>[64]byte\<close> that \<open>sha512.Sum512\<close> returns.\<close>

typedef sum512 = "{bs :: byte list. length bs = 64}"
  by (rule exI [of _ "replicate 64 0"]) simp

type_synonym 'r InitFunc =
  "string \<Rightarrow> string \<Rightarrow> (string \<rightharpoonup> string) option \<Rightarrow> error + 'r BlockStoreDriver"

text \<open>
  What the package takes from outside, as parameters: the process-wide map \<open>initializers\<close>
  (lines 65-71), \<open>utils.LoadConfig\<close> and \<open>utils.SaveConfig\<close> on a local disk of type \<open>'l\<close>
  (package \<open>utils\<close> is not among the sources), \<open>sha512.Sum512\<close>, and \<open>json.Marshal\<close> and
  \<open>json.Unmarshal\<close> at the two types they are used at. A constructor of a driver keeps
  its own configuration file, which is not part of the local disk modelled here;
  \<open>Register\<close> and \<open>Deregister\<close> (lines 96-156), which create and remove that file, are
  not part of this development.
\<close>

record ('l, 'r) env =
  initializers :: "string \<rightharpoonup> 'r InitFunc"
  LoadConfig :: "'l \<Rightarrow> string \<Rightarrow> error + BlockStore"
  SaveConfig :: "'l \<Rightarrow> string \<Rightarrow> BlockStore \<Rightarrow> 'l \<times> error option"
  Sum512 :: "byte list \<Rightarrow> sum512"
  MarshalVolume :: "Volume \<Rightarrow> error + byte list"
  MarshalSnapshotMap :: "SnapshotMap \<Rightarrow> error + byte list"
  UnmarshalSnapshotMap :: "byte list \<Rightarrow> error + SnapshotMap"

subsection \<open>Constants (lines 17-28)\<close>

definition BLOCKSTORE_BASE :: string where "BLOCKSTORE_BASE = ''rancher-blockstore''"
definition VOLUME_DIRECTORY :: string where "VOLUME_DIRECTORY = ''volume''"
definition VOLUME_CONFIG_FILE :: string where "VOLUME_CONFIG_FILE = ''volume.cfg''"
definition SNAPSHOTS_DIRECTORY :: string where "SNAPSHOTS_DIRECTORY = ''snapshots''"
definition SNAPSHOT_CONFIG_PREFIX :: string where "SNAPSHOT_CONFIG_PREFIX = ''snapshot-''"
definition BLOCKS_DIRECTORY :: string where "BLOCKS_DIRECTORY = ''blocks''"
definition BLOCK_SEPARATE_LAYER1 :: nat where "BLOCK_SEPARATE_LAYER1 = 2"
definition BLOCK_SEPARATE_LAYER2 :: nat where "BLOCK_SEPARATE_LAYER2 = 4"
definition DEFAULT_BLOCK_SIZE :: "32 word" where "DEFAULT_BLOCK_SIZE = 2097152"
definition PRESERVED_CHECKSUM_LENGTH :: nat where "PRESERVED_CHECKSUM_LENGTH = 64"

section \<open>The functions of Go's library that the package calls\<close>

text \<open>A slice expression \<open>s[lo:hi]\<close> of a string panics unless \<open>lo \<le> hi \<le> len(s)\<close>.\<close>

definition slice :: "string \<Rightarrow> nat \<Rightarrow> nat \<Rightarrow> error + string" where
  "slice s lo hi =
     (if lo \<le> hi \<and> hi \<le> length s then Inr (take (hi - lo) (drop lo s))
      else Inl (Panic ''slice bounds out of range''))"

text \<open>
  \<open>hex.EncodeToString\<close>: each byte \<open>v\<close> gives \<open>hextable[v>>4]\<close> and \<open>hextable[v&0x0f]\<close>.
\<close>

definition hextable :: string where "hextable = ''0123456789abcdef''"

fun hex_EncodeToString :: "byte list \<Rightarrow> string" where
  "hex_EncodeToString [] = []"
| "hex_EncodeToString (v # src) =
     hextable ! unat (drop_bit 4 v) # hextable ! unat (v AND 15) # hex_EncodeToString src"

text \<open>
  \<open>filepath.Join\<close> on Unix: the elements from the first non-empty one on are joined
  with \<open>/\<close> and the result is cleaned; with no non-empty element the result is empty.
  \<open>filepath.Clean\<close> works on the elements between the separators: it drops empty
  elements and \<open>.\<close>, lets \<open>..\<close> remove the element before it (\<open>out\<close> is the path
  built so far, \<open>..\<close> at its end cannot be removed), drops a \<open>..\<close> that would leave the
  root and keeps one that leads a relative path; the empty result is \<open>.\<close>.
\<close>

fun split_sep :: "string \<Rightarrow> string list" where
  "split_sep [] = [[]]"
| "split_sep (c # cs) =
     (if c = CHR ''/'' then [] # split_sep cs
      else (case split_sep cs of [] \<Rightarrow> [[c]] | w # ws \<Rightarrow> (c # w) # ws))"

fun strings_Join :: "string list \<Rightarrow> string" where
  "strings_Join [] = []"
| "strings_Join [e] = e"
| "strings_Join (e # e' # es) = e @ ''/'' @ strings_Join (e' # es)"

fun clean_elems :: "bool \<Rightarrow> string list \<Rightarrow> string list \<Rightarrow> string list" where
  "clean_elems rooted [] out = out"
| "clean_elems rooted (e # es) out =
     (if e = [] \<or> e = ''.'' then clean_elems rooted es out
      else if e = ''..'' then
        (if out \<noteq> [] \<and> last out \<noteq> ''..'' then clean_elems rooted es (butlast out)
         else if rooted then clean_elems rooted es out
         else clean_elems rooted es (out @ [''..'']))
      else clean_elems rooted es (out @ [e]))"

definition filepath_Clean :: "string \<Rightarrow> string" where
  "filepath_Clean path =
     (if path = [] then ''.''
      else
        (let rooted = (hd path = CHR ''/'');
             out = strings_Join (clean_elems rooted (split_sep path) [])
         in if rooted then CHR ''/'' # out
            else if out = [] then ''.'' else out))"

definition filepath_Join :: "string list \<Rightarrow> string" where
  "filepath_Join elem =
     (case dropWhile (\<lambda>e. e = []) elem of
        [] \<Rightarrow> []
      | es \<Rightarrow> filepath_Clean (strings_Join es))"

section \<open>The driver registry\<close>

text \<open>\<open>RegisterDriver\<close> (lines 73-79) on the map \<open>initializers\<close>, which it hands back.\<close>

definition RegisterDriver ::
  "(string \<rightharpoonup> 'f) \<Rightarrow> string \<Rightarrow> 'f \<Rightarrow> (string \<rightharpoonup> 'f) \<times> error option"
where
  "RegisterDriver inits kind initFunc =
     (if kind \<in> dom inits then (inits, Some (DriverAlreadyRegistered kind))
      else (inits(kind \<mapsto> initFunc), None))"

text \<open>\<open>GetBlockStoreDriver\<close> (lines 81-86).\<close>

definition GetBlockStoreDriver ::
  "(string \<rightharpoonup> 'r InitFunc) \<Rightarrow> string \<Rightarrow> string \<Rightarrow> string \<Rightarrow> (string \<rightharpoonup> string) option
   \<Rightarrow> error + 'r BlockStoreDriver"
where
  "GetBlockStoreDriver inits kind configFile id' config =
     (case inits kind of
        None \<Rightarrow> Inl (DriverNotSupported kind)
      | Some initFunc \<Rightarrow> initFunc configFile id' config)"

section \<open>Paths and names (lines 88-94 and 240-259)\<close>

definition getDriverConfigFilename :: "string \<Rightarrow> string \<Rightarrow> string \<Rightarrow> string" where
  "getDriverConfigFilename root kind id' = filepath_Join [root, id' @ ''-'' @ kind @ ''.cfg'']"

definition getConfigFilename :: "string \<Rightarrow> string \<Rightarrow> string" where
  "getConfigFilename root id' = filepath_Join [root, id' @ ''.cfg'']"

definition getVolumePath :: "string \<Rightarrow> string" where
  "getVolumePath volumeId = filepath_Join [BLOCKSTORE_BASE, VOLUME_DIRECTORY, volumeId]"

definition getSnapshotsPath :: "string \<Rightarrow> string" where
  "getSnapshotsPath volumeId = filepath_Join [getVolumePath volumeId, SNAPSHOTS_DIRECTORY]"

text \<open>
  \<open>getBlockPathAndFileName\<close> (lines 248-255): the two slice expressions panic on a
  checksum that is too short.
\<close>

definition getBlockPathAndFileName :: "string \<Rightarrow> string \<Rightarrow> error + (string \<times> string)" where
  "getBlockPathAndFileName volumeId checksum =
     (case slice checksum 0 BLOCK_SEPARATE_LAYER1 of
        Inl err \<Rightarrow> Inl err
      | Inr blockSubDirLayer1 \<Rightarrow>
     (case slice checksum BLOCK_SEPARATE_LAYER1 BLOCK_SEPARATE_LAYER2 of
        Inl err \<Rightarrow> Inl err
      | Inr blockSubDirLayer2 \<Rightarrow>
          (let path = filepath_Join [getVolumePath volumeId, BLOCKS_DIRECTORY,
                                     blockSubDirLayer1, blockSubDirLayer2];
               fileName = checksum @ ''.blk''
           in Inr (path, fileName))))"

definition getSnapshotConfigName :: "string \<Rightarrow> string" where
  "getSnapshotConfigName id' = SNAPSHOT_CONFIG_PREFIX @ id' @ ''.cfg''"

text \<open>
  The checksum of a block (lines 319-320):
  \<open>hex.EncodeToString(checksumBytes[:])[:PRESERVED_CHECKSUM_LENGTH]\<close>.
\<close>

definition block_checksum :: "('l, 'r) env \<Rightarrow> byte list \<Rightarrow> error + string" where
  "block_checksum e block =
     (let checksumBytes = Sum512 e block
      in slice (hex_EncodeToString (Rep_sum512 checksumBytes)) 0 PRESERVED_CHECKSUM_LENGTH)"

section \<open>The volume registry\<close>

text \<open>
  An operation takes the local disk and the remote store and hands them back as it
  leaves them, with its error (\<open>None\<close> is \<open>nil\<close>).

  \<open>AddVolume\<close> (lines 158-207).
\<close>

definition AddVolume ::
  "('l, 'r) env \<Rightarrow> string \<Rightarrow> string \<Rightarrow> string \<Rightarrow> string \<Rightarrow> 64 word \<Rightarrow> 'l \<times> 'r
   \<Rightarrow> ('l \<times> 'r) \<times> error option"
where
  "AddVolume e root id' volumeId base size' st =
     (case st of (l, r) \<Rightarrow> (
      let configFile = getConfigFilename root id' in
      case LoadConfig e l configFile of
        Inl err \<Rightarrow> ((l, r), Some err)
      | Inr b \<Rightarrow> (
      if volumeId \<in> dom (Volumes b) then ((l, r), Some (VolumeAlreadyExists volumeId id'))
      else
      let driverConfigFile = getDriverConfigFilename root (Kind b) id' in
      case GetBlockStoreDriver (initializers e) (Kind b) driverConfigFile id' None of
        Inl err \<Rightarrow> ((l, r), Some err)
      | Inr driver \<Rightarrow> (
      let volumeDir = filepath_Join [BLOCKSTORE_BASE, VOLUME_DIRECTORY, volumeId] in
      case MkDirAll driver r volumeDir of
        (r1, Some err) \<Rightarrow> ((l, r1), Some err)
      | (r1, None) \<Rightarrow> (
      let volume = \<lparr>Size = size', Base = base, LastSnapshotId = ''''\<rparr>;
          b1 = b\<lparr>Volumes := (Volumes b)(volumeId \<mapsto> volume)\<rparr> in
      case SaveConfig e l configFile b1 of
        (l1, Some err) \<Rightarrow> ((l1, r1), Some err)
      | (l1, None) \<Rightarrow> (
      case MarshalVolume e volume of
        Inl err \<Rightarrow> ((l1, r1), Some err)
      | Inr j \<Rightarrow> (
      let volumePath = getVolumePath volumeId;
          volumeFile = VOLUME_CONFIG_FILE in
      if FileExists driver r1 volumePath volumeFile then ((l1, r1), Some VolumeConfigAlreadyExisted)
      else
      case Write driver r1 j volumePath volumeFile of
        (r2, Some err) \<Rightarrow> ((l1, r2), Some err)
      | (r2, None) \<Rightarrow> ((l1, r2), None))))))))"

text \<open>\<open>RemoveVolume\<close> (lines 209-238).\<close>

definition RemoveVolume ::
  "('l, 'r) env \<Rightarrow> string \<Rightarrow> string \<Rightarrow> string \<Rightarrow> 'l \<times> 'r \<Rightarrow> ('l \<times> 'r) \<times> error option"
where
  "RemoveVolume e root id' volumeId st =
     (case st of (l, r) \<Rightarrow> (
      let configFile = getConfigFilename root id' in
      case LoadConfig e l configFile of
        Inl err \<Rightarrow> ((l, r), Some err)
      | Inr b \<Rightarrow> (
      if volumeId \<notin> dom (Volumes b) then ((l, r), Some (VolumeDoesntExist volumeId id'))
      else
      let driverConfigFile = getDriverConfigFilename root (Kind b) id' in
      case GetBlockStoreDriver (initializers e) (Kind b) driverConfigFile id' None of
        Inl err \<Rightarrow> ((l, r), Some err)
      | Inr driver \<Rightarrow> (
      let volumeDir = filepath_Join [BLOCKSTORE_BASE, VOLUME_DIRECTORY, volumeId] in
      case RemoveAll driver r volumeDir of
        (r1, Some err) \<Rightarrow> ((l, r1), Some err)
      | (r1, None) \<Rightarrow> (
      let b1 = b\<lparr>Volumes := (Volumes b)(volumeId := None)\<rparr> in
      case SaveConfig e l configFile b1 of
        (l1, Some err) \<Rightarrow> ((l1, r1), Some err)
      | (l1, None) \<Rightarrow> ((l1, r1), None))))))"

section \<open>The loops of BackupSnapshot\<close>

text \<open>
  Lines 279-298: the map of the last snapshot, read from the remote store when the
  volume has a last snapshot; \<open>data\<close> is a buffer of \<open>fileSize\<close> zero bytes that \<open>Read\<close>
  fills.
\<close>

definition load_last_snapshot_map ::
  "('l, 'r) env \<Rightarrow> 'r BlockStoreDriver \<Rightarrow> 'r \<Rightarrow> string \<Rightarrow> string \<Rightarrow> error + SnapshotMap"
where
  "load_last_snapshot_map e bsDriver r volumeId lastSnapshotId =
     (if lastSnapshotId \<noteq> '''' then
        (let path = getSnapshotsPath volumeId;
             fileName = getSnapshotConfigName lastSnapshotId;
             fileSize = FileSize bsDriver r path fileName in
         if fileSize < 0 then Inl (LastSnapshotDoesntExist lastSnapshotId)
         else
         case Read bsDriver r path fileName (replicate (nat fileSize) 0) of
           Inl err \<Rightarrow> Inl err
         | Inr data \<Rightarrow> (
         case UnmarshalSnapshotMap e data of
           Inl err \<Rightarrow> Inl err
         | Inr lastSnapshotMap \<Rightarrow> Inr lastSnapshotMap))
      else Inr \<lparr>Id' = '''', Blocks = []\<rparr>)"

text \<open>
  The inner loop (lines 313-340) over the blocks of one dirty extent \<open>d\<close>. \<open>n\<close> is the
  bound \<open>d.Size/uint64(delta.BlockSize)\<close>, \<open>i\<close> the loop variable, both \<open>uint64\<close>; the
  state is the remote store, the snapshot source, the buffer \<open>block\<close> and
  \<open>snapshotDeltaMap.Blocks\<close>. When the block file is found (\<open>FileSize \<ge> 0\<close>) the source
  says \<open>continue\<close>: the next iteration starts with the same \<open>snapshotDeltaMap.Blocks\<close>.
\<close>

function backup_blocks ::
  "('l, 'r) env \<Rightarrow> 'r BlockStoreDriver \<Rightarrow> 's Driver \<Rightarrow> string \<Rightarrow> string \<Rightarrow> 32 word \<Rightarrow> Mapping
   \<Rightarrow> 64 word \<Rightarrow> 64 word \<Rightarrow> 'r \<times> 's \<times> byte list \<times> BlockMapping list
   \<Rightarrow> ('r \<times> 's \<times> byte list \<times> BlockMapping list) \<times> error option"
where
  "backup_blocks e bsDriver sDriver snapshotId volumeId deltaBlockSize d n i st =
     (case st of (r, s, block, blocks) \<Rightarrow>
      if i < n then
        (let offset = Mapping.Offset d + i * ucast deltaBlockSize in
         case ReadSnapshot sDriver s snapshotId volumeId offset block of
           (s1, Inl err) \<Rightarrow> ((r, s1, block, blocks), Some err)
         | (s1, Inr block1) \<Rightarrow> (
         case block_checksum e block1 of
           Inl err \<Rightarrow> ((r, s1, block1, blocks), Some err)
         | Inr checksum \<Rightarrow> (
         case getBlockPathAndFileName volumeId checksum of
           Inl err \<Rightarrow> ((r, s1, block1, blocks), Some err)
         | Inr (path, fileName) \<Rightarrow> (
         if FileSize bsDriver r path fileName \<ge> 0 then
           backup_blocks e bsDriver sDriver snapshotId volumeId deltaBlockSize d n (i + 1)
             (r, s1, block1, blocks)
         else
         case MkDirAll bsDriver r path of
           (r1, Some err) \<Rightarrow> ((r1, s1, block1, blocks), Some err)
         | (r1, None) \<Rightarrow> (
         case Write bsDriver r1 block1 path fileName of
           (r2, Some err) \<Rightarrow> ((r2, s1, block1, blocks), Some err)
         | (r2, None) \<Rightarrow> (
           let blockMapping = \<lparr>Offset = offset, Block = checksum\<rparr> in
           backup_blocks e bsDriver sDriver snapshotId volumeId deltaBlockSize d n (i + 1)
             (r2, s1, block1, blocks @ [blockMapping])))))))
      else (st, None))"
  by pat_completeness auto
termination
  by (relation "measure (\<lambda>(e, bsDriver, sDriver, snapshotId, volumeId, deltaBlockSize, d, n, i, st).
        unat n - unat i)")
     (simp, (simp, unat_arith)+)

declare backup_blocks.simps [simp del]

text \<open>
  The outer loop (lines 311-341) over \<open>delta.Mappings\<close>: each extent gets a fresh buffer of
  \<open>b.BlockSize\<close> zero bytes. The bound of the inner loop divides by \<open>delta.BlockSize\<close>,
  which panics when that is 0.
\<close>

fun backup_mappings ::
  "('l, 'r) env \<Rightarrow> 'r BlockStoreDriver \<Rightarrow> 's Driver \<Rightarrow> string \<Rightarrow> string \<Rightarrow> 32 word \<Rightarrow> 32 word
   \<Rightarrow> Mapping list \<Rightarrow> 'r \<times> 's \<times> BlockMapping list
   \<Rightarrow> ('r \<times> 's \<times> BlockMapping list) \<times> error option"
where
  "backup_mappings e bsDriver sDriver snapshotId volumeId bBlockSize deltaBlockSize [] st =
     (st, None)"
| "backup_mappings e bsDriver sDriver snapshotId volumeId bBlockSize deltaBlockSize (d # ds) st =
     (case st of (r, s, blocks) \<Rightarrow> (
      let block = replicate (unat bBlockSize) 0 in
      if ucast deltaBlockSize = (0 :: 64 word) then
        ((r, s, blocks), Some (Panic ''integer divide by zero''))
      else
      case backup_blocks e bsDriver sDriver snapshotId volumeId deltaBlockSize d
             (Mapping.Size d div ucast deltaBlockSize) 0 (r, s, block, blocks) of
        ((r1, s1, block1, blocks1), Some err) \<Rightarrow> ((r1, s1, blocks1), Some err)
      | ((r1, s1, block1, blocks1), None) \<Rightarrow> (
          backup_mappings e bsDriver sDriver snapshotId volumeId bBlockSize deltaBlockSize ds
            (r1, s1, blocks1))))"

section \<open>mergeSnapshotMap\<close>

text \<open>
  The loop of \<open>mergeSnapshotMap\<close> (lines 378-393): \<open>d\<close> and \<open>l\<close> index \<open>deltaMap.Blocks\<close> and
  \<open>lastMap.Blocks\<close>, \<open>sBlocks\<close> is \<open>sMap.Blocks\<close>. The loop stops as soon as one of the two
  indices reaches the end of its slice, and the function returns \<open>sMap\<close> right after it.
\<close>

function merge_loop ::
  "BlockMapping list \<Rightarrow> BlockMapping list \<Rightarrow> nat \<Rightarrow> nat \<Rightarrow> BlockMapping list \<Rightarrow> BlockMapping list"
where
  "merge_loop dBlocks lBlocks d l sBlocks =
     (if d < length dBlocks \<and> l < length lBlocks then
        (let dB = dBlocks ! d; lB = lBlocks ! l in
         if Offset dB = Offset lB then
           merge_loop dBlocks lBlocks (d + 1) (l + 1) (sBlocks @ [dB])
         else if Offset dB < Offset lB then
           merge_loop dBlocks lBlocks (d + 1) l (sBlocks @ [dB])
         else
           merge_loop dBlocks lBlocks d (l + 1) (sBlocks @ [lB]))
      else sBlocks)"
  by pat_completeness auto
termination
  by (relation "measure (\<lambda>(dBlocks, lBlocks, d, l, sBlocks).
        (length dBlocks - d) + (length lBlocks - l))") auto

declare merge_loop.simps [simp del]

definition mergeSnapshotMap :: "string \<Rightarrow> SnapshotMap \<Rightarrow> SnapshotMap \<Rightarrow> SnapshotMap" where
  "mergeSnapshotMap snapshotId deltaMap lastMap =
     (if length (Blocks lastMap) = 0 then deltaMap\<lparr>Id' := snapshotId\<rparr>
      else \<lparr>Id' = snapshotId,
            Blocks = merge_loop (Blocks deltaMap) (Blocks lastMap) 0 0 []\<rparr>)"

section \<open>BackupSnapshot\<close>

text \<open>
  \<open>BackupSnapshot\<close> (lines 261-367), on the local disk, the remote store and the snapshot
  source. \<open>volume\<close> is a copy of the map entry \<open>b.Volumes[volumeId]\<close> (the map holds
  \<open>Volume\<close> values, not pointers), so the assignment of line 361 changes the copy and
  \<open>SaveConfig\<close> is given \<open>b\<close> as loaded.
\<close>

definition BackupSnapshot ::
  "('l, 'r) env \<Rightarrow> string \<Rightarrow> string \<Rightarrow> string \<Rightarrow> string \<Rightarrow> 's Driver \<Rightarrow> 'l \<times> 'r \<times> 's
   \<Rightarrow> ('l \<times> 'r \<times> 's) \<times> error option"
where
  "BackupSnapshot e root snapshotId volumeId blockstoreId sDriver st =
     (case st of (l, r, s) \<Rightarrow> (
      let configFile = getConfigFilename root blockstoreId in
      case LoadConfig e l configFile of
        Inl err \<Rightarrow> ((l, r, s), Some err)
      | Inr b \<Rightarrow> (
      let driverConfigFile = getDriverConfigFilename root (Kind b) blockstoreId in
      case GetBlockStoreDriver (initializers e) (Kind b) driverConfigFile blockstoreId None of
        Inl err \<Rightarrow> ((l, r, s), Some err)
      | Inr bsDriver \<Rightarrow> (
      case Volumes b volumeId of
        None \<Rightarrow> ((l, r, s), Some (CannotFindVolume volumeId blockstoreId))
      | Some volume \<Rightarrow> (
      let lastSnapshotId = LastSnapshotId volume in
      case load_last_snapshot_map e bsDriver r volumeId lastSnapshotId of
        Inl err \<Rightarrow> ((l, r, s), Some err)
      | Inr lastSnapshotMap \<Rightarrow> (
      case CompareSnapshot sDriver s snapshotId lastSnapshotId volumeId of
        (s1, Inl err) \<Rightarrow> ((l, r, s1), Some err)
      | (s1, Inr delta) \<Rightarrow> (
      if Mappings.BlockSize delta \<noteq> BlockSize b then ((l, r, s1), Some DifferentBlockSizes)
      else
      case backup_mappings e bsDriver sDriver snapshotId volumeId (BlockSize b)
             (Mappings.BlockSize delta) (Mappings delta) (r, s1, []) of
        ((r2, s2, blocks), Some err) \<Rightarrow> ((l, r2, s2), Some err)
      | ((r2, s2, blocks), None) \<Rightarrow> (
      let snapshotDeltaMap = \<lparr>Id' = '''', Blocks = blocks\<rparr>;
          snapshotMap = mergeSnapshotMap snapshotId snapshotDeltaMap lastSnapshotMap;
          path = getSnapshotsPath volumeId;
          fileName = getSnapshotConfigName snapshotId in
      case (if FileExists bsDriver r2 path fileName
            then RemoveAll bsDriver r2 (filepath_Join [path, fileName])
            else (r2, None)) of
        (r3, Some err) \<Rightarrow> ((l, r3, s2), Some err)
      | (r3, None) \<Rightarrow> (
      case MarshalSnapshotMap e snapshotMap of
        Inl err \<Rightarrow> ((l, r3, s2), Some err)
      | Inr j \<Rightarrow> (
      case Write bsDriver r3 j path fileName of
        (r4, Some err) \<Rightarrow> ((l, r4, s2), Some err)
      | (r4, None) \<Rightarrow> (
      let volume1 = volume\<lparr>LastSnapshotId := snapshotId\<rparr> in
      case SaveConfig e l configFile b of
        (l1, Some err) \<Rightarrow> ((l1, r4, s2), Some err)
      | (l1, None) \<Rightarrow> ((l1, r4, s2), None))))))))))))"

section \<open>Auxiliary definitions for the proofs\<close>

text \<open>
  What \<open>merge_loop\<close> appends from the positions \<open>d\<close> and \<open>l\<close> on, as a function of the two
  remaining slices. It is used only to reason about \<open>merge_loop\<close> by induction.
\<close>

fun merge_lists :: "BlockMapping list \<Rightarrow> BlockMapping list \<Rightarrow> BlockMapping list" where
  "merge_lists (x # xs) (y # ys) =
     (if Offset x = Offset y then x # merge_lists xs ys
      else if Offset x < Offset y then x # merge_lists xs (y # ys)
      else y # merge_lists (x # xs) ys)"
| "merge_lists [] ys = []"
| "merge_lists xs [] = []"

text \<open>
  The digest in the spec's words: the SHA-512 of the block rendered in lower-case
  hexadecimal, two digits for each byte with the high digit first, cut to its first
  64 characters.
\<close>

definition hex_digit :: "nat \<Rightarrow> char" where
  "hex_digit n = (if n < 10 then char_of (48 + n) else char_of (87 + n))"

definition lower_hex :: "byte list \<Rightarrow> string" where
  "lower_hex bs = concat (map (\<lambda>v. [hex_digit (unat v div 16), hex_digit (unat v mod 16)]) bs)"

definition spec_digest :: "byte list \<Rightarrow> string" where
  "spec_digest digest = take 64 (lower_hex digest)"

text \<open>
  A path element that \<open>filepath.Clean\<close> keeps as it is, and the elements of the cleaned
  volume directory of a volume id without separator.
\<close>

definition plain :: "string \<Rightarrow> bool" where
  "plain e \<longleftrightarrow> e \<noteq> [] \<and> e \<noteq> ''.'' \<and> e \<noteq> ''..'' \<and> CHR ''/'' \<notin> set e"

definition volume_elems :: "string \<Rightarrow> string list" where
  "volume_elems v =
     (if v = [] \<or> v = ''.'' then [BLOCKSTORE_BASE, VOLUME_DIRECTORY]
      else if v = ''..'' then [BLOCKSTORE_BASE]
      else [BLOCKSTORE_BASE, VOLUME_DIRECTORY, v])"

section \<open>An instance of the interfaces in memory\<close>

text \<open>
  To run the operations on concrete inputs: a remote store and a local disk that are
  association lists from file names to contents, a snapshot source that answers
  \<open>CompareSnapshot\<close> with a given delta and \<open>ReadSnapshot\<close> with given contents and counts
  the reads, and a codec that writes strings with a terminating zero byte and offsets
  as eight bytes. \<open>mem_sum512\<close> stands in for SHA-512: the first 64 bytes of the block,
  padded with zeros.
\<close>

type_synonym mem_remote = "(string \<times> byte list) list"
type_synonym mem_local = "(string \<times> BlockStore) list"

definition mem_driver :: "mem_remote BlockStoreDriver" where
  "mem_driver =
     \<lparr>DriverKind = ''mem'',
      FileExists = (\<lambda>r path name. map_of r (filepath_Join [path, name]) \<noteq> None),
      FileSize = (\<lambda>r path name.
         case map_of r (filepath_Join [path, name]) of
           None \<Rightarrow> - 1
         | Some data \<Rightarrow> int (length data)),
      MkDirAll = (\<lambda>r dir. (r, None)),
      RemoveAll = (\<lambda>r name.
         (filter (\<lambda>(k, data). k \<noteq> name \<and> take (Suc (length name)) k \<noteq> name @ ''/'') r, None)),
      Read = (\<lambda>r path name buf.
         case map_of r (filepath_Join [path, name]) of
           None \<Rightarrow> Inl (External ''no such file'')
         | Some data \<Rightarrow>
             if length data = length buf then Inr data else Inl (External ''wrong size'')),
      Write = (\<lambda>r data path name. ((filepath_Join [path, name], data) # r, None)),
      CopyToPath = (\<lambda>r src dst. (r, Some (External ''not supported'')))\<rparr>"

definition mem_source :: "Mappings \<Rightarrow> (64 word \<Rightarrow> byte list) \<Rightarrow> nat Driver" where
  "mem_source delta content =
     \<lparr>CompareSnapshot = (\<lambda>s new old vol. (s, Inr delta)),
      ReadSnapshot = (\<lambda>s snap vol offset buf.
         (Suc s, Inr (take (length buf) (content offset @ replicate (length buf) 0))))\<rparr>"

definition mem_sum512 :: "byte list \<Rightarrow> sum512" where
  "mem_sum512 bs = Abs_sum512 (take 64 (bs @ replicate 64 0))"

definition enc_string :: "string \<Rightarrow> byte list" where
  "enc_string s = map (\<lambda>c. of_nat (of_char c)) s @ [0]"

definition enc_u64 :: "64 word \<Rightarrow> byte list" where
  "enc_u64 w = map (\<lambda>i. ucast (drop_bit (8 * i) w)) [7, 6, 5, 4, 3, 2, 1, 0]"

definition dec_string :: "byte list \<Rightarrow> string" where
  "dec_string bs = map (\<lambda>b. char_of (unat b)) (takeWhile (\<lambda>b. b \<noteq> 0) bs)"

definition dec_u64 :: "byte list \<Rightarrow> 64 word" where
  "dec_u64 bs = foldl (\<lambda>w b. push_bit 8 w OR ucast b) 0 (take 8 bs)"

function dec_blocks :: "byte list \<Rightarrow> BlockMapping list" where
  "dec_blocks bs =
     (if length bs < 9 then []
      else \<lparr>Offset = dec_u64 bs, Block = dec_string (drop 8 bs)\<rparr>
           # dec_blocks (drop 1 (dropWhile (\<lambda>b. b \<noteq> 0) (drop 8 bs))))"
  by pat_completeness auto
termination
proof (relation "measure length")
  show "wf (measure length)" by simp
next
  fix bs :: "byte list"
  assume "\<not> length bs < 9"
  moreover have "length (dropWhile (\<lambda>b. b \<noteq> 0) (drop 8 bs)) \<le> length (drop 8 bs)"
    by (rule length_dropWhile_le)
  ultimately show "(drop 1 (dropWhile (\<lambda>b. b \<noteq> 0) (drop 8 bs)), bs) \<in> measure length"
    by simp
qed

declare dec_blocks.simps [simp del]

definition mem_MarshalVolume :: "Volume \<Rightarrow> error + byte list" where
  "mem_MarshalVolume v =
     Inr (enc_u64 (Size v) @ enc_string (Base v) @ enc_string (LastSnapshotId v))"

definition mem_MarshalSnapshotMap :: "SnapshotMap \<Rightarrow> error + byte list" where
  "mem_MarshalSnapshotMap m =
     Inr (enc_string (Id' m)
          @ concat (map (\<lambda>b. enc_u64 (Offset b) @ enc_string (Block b)) (Blocks m)))"

definition mem_UnmarshalSnapshotMap :: "byte list \<Rightarrow> error + SnapshotMap" where
  "mem_UnmarshalSnapshotMap data =
     (if 0 \<in> set data
      then Inr \<lparr>Id' = dec_string data,
                Blocks = dec_blocks (drop 1 (dropWhile (\<lambda>b. b \<noteq> 0) data))\<rparr>
      else Inl (External ''unexpected end of input''))"

definition mem_LoadConfig :: "mem_local \<Rightarrow> string \<Rightarrow> error + BlockStore" where
  "mem_LoadConfig l fileName =
     (case map_of l fileName of
        None \<Rightarrow> Inl (External ''no such file'')
      | Some b \<Rightarrow> Inr b)"

definition mem_SaveConfig :: "mem_local \<Rightarrow> string \<Rightarrow> BlockStore \<Rightarrow> mem_local \<times> error option" where
  "mem_SaveConfig l fileName b = ((fileName, b) # l, None)"

definition mem_env :: "(mem_local, mem_remote) env" where
  "mem_env =
     \<lparr>initializers = [''mem'' \<mapsto> (\<lambda>configFile id' config. Inr mem_driver)],
      LoadConfig = mem_LoadConfig,
      SaveConfig = mem_SaveConfig,
      Sum512 = mem_sum512,
      MarshalVolume = mem_MarshalVolume,
      MarshalSnapshotMap = mem_MarshalSnapshotMap,
      UnmarshalSnapshotMap = mem_UnmarshalSnapshotMap\<rparr>"

section \<open>A blockstore with one volume, for concrete runs\<close>

text \<open>
  The blockstore \<open>bs1\<close> under the root \<open>/var/lib/volmgr\<close>, of kind \<open>mem\<close> and with the default
  block size, holds the volume \<open>vol1\<close> of 6 MiB, whose last snapshot is \<open>lastId\<close>. The
  snapshot source reports the whole volume as one dirty extent and reads zeros
  everywhere (scenario S1 of the spec).
\<close>

definition ex_blockstore :: "string \<Rightarrow> BlockStore" where
  "ex_blockstore lastId =
     \<lparr>Kind = ''mem'', BlockSize = DEFAULT_BLOCK_SIZE,
      Volumes = [''vol1'' \<mapsto> \<lparr>Size = 6291456, Base = '''', LastSnapshotId = lastId\<rparr>]\<rparr>"

definition ex_local :: "string \<Rightarrow> mem_local" where
  "ex_local lastId = [(''/var/lib/volmgr/bs1.cfg'', ex_blockstore lastId)]"

definition ex_delta :: Mappings where
  "ex_delta = \<lparr>Mappings = [\<lparr>Mapping.Offset = 0, Size = 6291456\<rparr>], BlockSize = 2097152\<rparr>"

definition ex_source :: "nat Driver" where
  "ex_source = mem_source ex_delta (\<lambda>offset. [])"

definition zero_block :: "byte list" where
  "zero_block = replicate 2097152 0"

definition zero_digest :: string where
  "zero_digest = ''0000000000000000000000000000000000000000000000000000000000000000''"

text \<open>The manifest of snapshot \<open>s1\<close> with the single entry \<open>{0, zero_digest}\<close>, as the codec writes it.\<close>

definition s1_manifest :: "byte list" where
  "s1_manifest = enc_string ''s1'' @ enc_u64 0 @ enc_string zero_digest"

text \<open>The blockstore \<open>bs1\<close> before any volume is added.\<close>

definition empty_blockstore :: BlockStore where
  "empty_blockstore = \<lparr>Kind = ''mem'', BlockSize = DEFAULT_BLOCK_SIZE, Volumes = Map.empty\<rparr>"

definition empty_local :: mem_local where
  "empty_local = [(''/var/lib/volmgr/bs1.cfg'', empty_blockstore)]"

section \<open>The merge of two snapshot maps\<close>

lemma merge_lists_Nil2: "merge_lists xs [] = []"
  by (cases xs) simp_all

lemma merge_loop_stop:
  "\<not> (d < length D \<and> l < length L) \<Longrightarrow> merge_loop D L d l acc = acc"
  by (subst merge_loop.simps) auto

lemma merge_loop_step:
  "d < length D \<Longrightarrow> l < length L \<Longrightarrow>
   merge_loop D L d l acc =
     (if Offset (D ! d) = Offset (L ! l) then merge_loop D L (d + 1) (l + 1) (acc @ [D ! d])
      else if Offset (D ! d) < Offset (L ! l) then merge_loop D L (d + 1) l (acc @ [D ! d])
      else merge_loop D L d (l + 1) (acc @ [L ! l]))"
  by (subst merge_loop.simps) (simp add: Let_def)

lemma merge_loop_merge_lists:
  "merge_loop D L d l acc = acc @ merge_lists (drop d D) (drop l L)"
proof (induction D L d l acc rule: merge_loop.induct)
  case (1 D L d l acc)
  show ?case
  proof (cases "d < length D \<and> l < length L")
    case True
    then have dd: "drop d D = D ! d # drop (Suc d) D"
      and dl: "drop l L = L ! l # drop (Suc l) L"
      by (simp_all add: Cons_nth_drop_Suc)
    from True have step: "merge_loop D L d l acc =
     (if Offset (D ! d) = Offset (L ! l) then merge_loop D L (d + 1) (l + 1) (acc @ [D ! d])
      else if Offset (D ! d) < Offset (L ! l) then merge_loop D L (d + 1) l (acc @ [D ! d])
      else merge_loop D L d (l + 1) (acc @ [L ! l]))"
      by (simp add: merge_loop_step)
    show ?thesis
      using "1.IH" [OF True refl refl]
      by (simp add: step dd dl)
  next
    case False
    then have "drop d D = [] \<or> drop l L = []" by auto
    then have "merge_lists (drop d D) (drop l L) = []"
      by (auto simp: merge_lists_Nil2)
    with False show ?thesis by (simp add: merge_loop_stop)
  qed
qed

lemma set_merge_lists: "set (merge_lists xs ys) \<subseteq> set xs \<union> set ys"
  by (induction xs ys rule: merge_lists.induct) auto

lemma merge_lists_lower:
  assumes "\<forall>z \<in> set xs. a < Offset z" and "\<forall>z \<in> set ys. a < Offset z"
  shows "\<forall>z \<in> set (merge_lists xs ys). a < Offset z"
  using assms set_merge_lists [of xs ys] by blast

lemma sorted_merge_lists:
  "sorted_wrt (<) (map Offset xs) \<Longrightarrow> sorted_wrt (<) (map Offset ys) \<Longrightarrow>
   sorted_wrt (<) (map Offset (merge_lists xs ys))"
proof (induction xs ys rule: merge_lists.induct)
  case (1 x xs y ys)
  from "1.prems" have sx: "sorted_wrt (<) (map Offset xs)"
    and sy: "sorted_wrt (<) (map Offset ys)"
    and hx: "\<forall>z \<in> set xs. Offset x < Offset z"
    and hy: "\<forall>z \<in> set ys. Offset y < Offset z"
    by simp_all
  show ?case
  proof (cases "Offset x = Offset y")
    case True
    from hy True have "\<forall>z \<in> set ys. Offset x < Offset z" by simp
    with hx have "\<forall>z \<in> set (merge_lists xs ys). Offset x < Offset z"
      by (rule merge_lists_lower)
    with "1.IH"(1) [OF True sx sy] True show ?thesis by simp
  next
    case False
    show ?thesis
    proof (cases "Offset x < Offset y")
      case True
      with hy have "\<forall>z \<in> set (y # ys). Offset x < Offset z" by auto
      with hx have "\<forall>z \<in> set (merge_lists xs (y # ys)). Offset x < Offset z"
        by (rule merge_lists_lower)
      with "1.IH"(2) [OF False True sx "1.prems"(2)] False True show ?thesis by simp
    next
      case gt: False
      with False have "Offset y < Offset x" by simp
      with hx have "\<forall>z \<in> set (x # xs). Offset y < Offset z" by auto
      then have "\<forall>z \<in> set (merge_lists (x # xs) ys). Offset y < Offset z"
        using hy by (rule merge_lists_lower)
      with "1.IH"(3) [OF False gt "1.prems"(1) sy] False gt show ?thesis by simp
    qed
  qed
qed simp_all

lemma common_merge_lists:
  "sorted_wrt (<) (map Offset xs) \<Longrightarrow> sorted_wrt (<) (map Offset ys) \<Longrightarrow>
   dB \<in> set xs \<Longrightarrow> lB \<in> set ys \<Longrightarrow> Offset dB = Offset lB \<Longrightarrow>
   dB \<in> set (merge_lists xs ys)"
proof (induction xs ys rule: merge_lists.induct)
  case (1 x xs y ys)
  from "1.prems" have sx: "sorted_wrt (<) (map Offset xs)"
    and sy: "sorted_wrt (<) (map Offset ys)"
    and hx: "\<forall>z \<in> set xs. Offset x < Offset z"
    and hy: "\<forall>z \<in> set ys. Offset y < Offset z"
    by simp_all
  from "1.prems" have dB: "dB = x \<or> dB \<in> set xs" and lB: "lB = y \<or> lB \<in> set ys"
    by simp_all
  note eq = \<open>Offset dB = Offset lB\<close>
  show ?case
  proof (cases "Offset x = Offset y")
    case True
    show ?thesis
    proof (cases "dB = x")
      case True
      with \<open>Offset x = Offset y\<close> show ?thesis by simp
    next
      case False
      with dB have d: "dB \<in> set xs" by simp
      with hx have "Offset x < Offset dB" by simp
      with eq True hy lB have l: "lB \<in> set ys" by auto
      from "1.IH"(1) [OF True sx sy d l eq] True show ?thesis by simp
    qed
  next
    case False
    show ?thesis
    proof (cases "Offset x < Offset y")
      case True
      from lB hy have "Offset y \<le> Offset lB" by auto
      with True eq have "dB \<noteq> x" by auto
      with dB have d: "dB \<in> set xs" by simp
      from "1.IH"(2) [OF False True sx "1.prems"(2) d "1.prems"(4) eq] False True
      show ?thesis by simp
    next
      case gt: False
      with False have yx: "Offset y < Offset x" by simp
      from dB hx have "Offset x \<le> Offset dB" by auto
      with yx eq have "lB \<noteq> y" by auto
      with lB have l: "lB \<in> set ys" by simp
      from "1.IH"(3) [OF False gt "1.prems"(1) sy "1.prems"(3) l eq] False gt
      show ?thesis by simp
    qed
  qed
qed simp_all

lemma sorted_offsets_unique:
  "sorted_wrt (<) (map Offset xs) \<Longrightarrow> a \<in> set xs \<Longrightarrow> b \<in> set xs \<Longrightarrow>
   Offset a = Offset b \<Longrightarrow> a = b"
  by (induction xs) auto

lemma Blocks_mergeSnapshotMap:
  "Blocks (mergeSnapshotMap snapshotId deltaMap lastMap) =
     (if Blocks lastMap = [] then Blocks deltaMap
      else merge_lists (Blocks deltaMap) (Blocks lastMap))"
  by (simp add: mergeSnapshotMap_def merge_loop_merge_lists)

text \<open>
  C1. Claimed: the blocks of the merged map hold an entry for every offset of either
  input, the remainder of one side being appended once the other is exhausted. On
  the inputs of scenario S6, last = [{0,a},{2M,b},{4M,c}] and delta = [{6M,d}], the
  function returns the three entries of last and no entry at offset 6M: the loop ends
  when last is exhausted and nothing is appended after it.
\<close>

theorem mergeSnapshotMap_drops_tail:
  "Blocks (mergeSnapshotMap ''s2''
      \<lparr>Id' = '''', Blocks = [\<lparr>Offset = 6291456, Block = ''d''\<rparr>]\<rparr>
      \<lparr>Id' = ''s1'', Blocks = [\<lparr>Offset = 0, Block = ''a''\<rparr>,
         \<lparr>Offset = 2097152, Block = ''b''\<rparr>, \<lparr>Offset = 4194304, Block = ''c''\<rparr>]\<rparr>)
   = [\<lparr>Offset = 0, Block = ''a''\<rparr>, \<lparr>Offset = 2097152, Block = ''b''\<rparr>,
      \<lparr>Offset = 4194304, Block = ''c''\<rparr>]"
  by (simp add: Blocks_mergeSnapshotMap)

text \<open>
  C6, as stated: for inputs ascending by offset, the merged sequence is ascending with
  no duplicate offsets. With delta = [{0,a},{0,b},{2M,x}] and last = [{2M,c}], both
  ascending, the result is [{0,a},{0,b},{2M,x}]: an offset repeated inside one input
  is repeated in the result.
\<close>

theorem mergeSnapshotMap_duplicate_counterexample:
  "sorted (map Offset [\<lparr>Offset = 0, Block = ''a''\<rparr>, \<lparr>Offset = 0, Block = ''b''\<rparr>,
      \<lparr>Offset = 2097152, Block = ''x''\<rparr>])
   \<and> sorted (map Offset [\<lparr>Offset = 2097152, Block = ''c''\<rparr>])
   \<and> Blocks (mergeSnapshotMap ''s2''
         \<lparr>Id' = '''', Blocks = [\<lparr>Offset = 0, Block = ''a''\<rparr>, \<lparr>Offset = 0, Block = ''b''\<rparr>,
            \<lparr>Offset = 2097152, Block = ''x''\<rparr>]\<rparr>
         \<lparr>Id' = ''s1'', Blocks = [\<lparr>Offset = 2097152, Block = ''c''\<rparr>]\<rparr>)
       = [\<lparr>Offset = 0, Block = ''a''\<rparr>, \<lparr>Offset = 0, Block = ''b''\<rparr>,
          \<lparr>Offset = 2097152, Block = ''x''\<rparr>]
   \<and> \<not> distinct (map Offset (Blocks (mergeSnapshotMap ''s2''
         \<lparr>Id' = '''', Blocks = [\<lparr>Offset = 0, Block = ''a''\<rparr>, \<lparr>Offset = 0, Block = ''b''\<rparr>,
            \<lparr>Offset = 2097152, Block = ''x''\<rparr>]\<rparr>
         \<lparr>Id' = ''s1'', Blocks = [\<lparr>Offset = 2097152, Block = ''c''\<rparr>]\<rparr>)))"
  by (simp add: Blocks_mergeSnapshotMap)

text \<open>
  C6, amended: for inputs strictly ascending by offset (ascending, no offset twice
  within one input), the merged sequence is strictly ascending by offset, so it has
  no duplicate offsets; and whenever an offset appears in both inputs, the entry of
  delta is in the result and is the only entry of the result at that offset.
\<close>

theorem mergeSnapshotMap_delta_shadows_last:
  assumes "sorted_wrt (<) (map Offset (Blocks deltaMap))"
    and "sorted_wrt (<) (map Offset (Blocks lastMap))"
  shows "sorted_wrt (<) (map Offset (Blocks (mergeSnapshotMap snapshotId deltaMap lastMap)))
    \<and> (\<forall>dB \<in> set (Blocks deltaMap). \<forall>lB \<in> set (Blocks lastMap).
          Offset dB = Offset lB \<longrightarrow>
            dB \<in> set (Blocks (mergeSnapshotMap snapshotId deltaMap lastMap))
            \<and> (\<forall>sB \<in> set (Blocks (mergeSnapshotMap snapshotId deltaMap lastMap)).
                  Offset sB = Offset dB \<longrightarrow> sB = dB))"
proof -
  let ?res = "Blocks (mergeSnapshotMap snapshotId deltaMap lastMap)"
  have s: "sorted_wrt (<) (map Offset ?res)"
    using assms by (simp add: Blocks_mergeSnapshotMap sorted_merge_lists)
  have "dB \<in> set ?res \<and> (\<forall>sB \<in> set ?res. Offset sB = Offset dB \<longrightarrow> sB = dB)"
    if "dB \<in> set (Blocks deltaMap)" "lB \<in> set (Blocks lastMap)" "Offset dB = Offset lB"
    for dB lB
  proof -
    from that have "Blocks lastMap \<noteq> []" by auto
    with that assms have "dB \<in> set ?res"
      by (simp add: Blocks_mergeSnapshotMap common_merge_lists)
    with s show ?thesis
      by (blast intro: sorted_offsets_unique)
  qed
  with s show ?thesis by blast
qed

theorem mergeSnapshotMap_delta_shadows_last_witness:
  "sorted_wrt (<) (map Offset [\<lparr>Offset = 2097152, Block = ''x''\<rparr>])
   \<and> sorted_wrt (<) (map Offset [\<lparr>Offset = 0, Block = ''z''\<rparr>,
        \<lparr>Offset = 2097152, Block = ''z''\<rparr>, \<lparr>Offset = 4194304, Block = ''z''\<rparr>])
   \<and> \<lparr>Offset = 2097152, Block = ''x''\<rparr> \<in> set (Blocks (mergeSnapshotMap ''s2''
        \<lparr>Id' = '''', Blocks = [\<lparr>Offset = 2097152, Block = ''x''\<rparr>]\<rparr>
        \<lparr>Id' = ''s1'', Blocks = [\<lparr>Offset = 0, Block = ''z''\<rparr>,
           \<lparr>Offset = 2097152, Block = ''z''\<rparr>, \<lparr>Offset = 4194304, Block = ''z''\<rparr>]\<rparr>))
   \<and> \<lparr>Offset = 2097152, Block = ''z''\<rparr> \<notin> set (Blocks (mergeSnapshotMap ''s2''
        \<lparr>Id' = '''', Blocks = [\<lparr>Offset = 2097152, Block = ''x''\<rparr>]\<rparr>
        \<lparr>Id' = ''s1'', Blocks = [\<lparr>Offset = 0, Block = ''z''\<rparr>,
           \<lparr>Offset = 2097152, Block = ''z''\<rparr>, \<lparr>Offset = 4194304, Block = ''z''\<rparr>]\<rparr>))
   \<and> sorted_wrt (<) (map Offset (Blocks (mergeSnapshotMap ''s2''
        \<lparr>Id' = '''', Blocks = [\<lparr>Offset = 2097152, Block = ''x''\<rparr>]\<rparr>
        \<lparr>Id' = ''s1'', Blocks = [\<lparr>Offset = 0, Block = ''z''\<rparr>,
           \<lparr>Offset = 2097152, Block = ''z''\<rparr>, \<lparr>Offset = 4194304, Block = ''z''\<rparr>]\<rparr>)))"
proof -
  let ?D = "\<lparr>Id' = '''', Blocks = [\<lparr>Offset = 2097152, Block = ''x''\<rparr>]\<rparr>"
  let ?L = "\<lparr>Id' = ''s1'', Blocks = [\<lparr>Offset = 0, Block = ''z''\<rparr>,
           \<lparr>Offset = 2097152, Block = ''z''\<rparr>, \<lparr>Offset = 4194304, Block = ''z''\<rparr>]\<rparr>"
  have h1: "sorted_wrt (<) (map Offset (Blocks ?D))" by simp
  have h2: "sorted_wrt (<) (map Offset (Blocks ?L))" by simp
  have m1: "\<lparr>Offset = 2097152, Block = ''x''\<rparr> \<in> set (Blocks ?D)" by simp
  have m2: "\<lparr>Offset = 2097152, Block = ''z''\<rparr> \<in> set (Blocks ?L)" by simp
  from mergeSnapshotMap_delta_shadows_last [OF h1 h2, of "''s2''"] m1 m2
  have "sorted_wrt (<) (map Offset (Blocks (mergeSnapshotMap ''s2'' ?D ?L)))"
    and "\<lparr>Offset = 2097152, Block = ''x''\<rparr> \<in> set (Blocks (mergeSnapshotMap ''s2'' ?D ?L))"
    and "\<lparr>Offset = 2097152, Block = ''z''\<rparr> \<notin> set (Blocks (mergeSnapshotMap ''s2'' ?D ?L))"
    by (simp, fastforce, fastforce)
  with h1 h2 show ?thesis by simp
qed

section \<open>The digest of a block and where the block is stored\<close>

lemma sum512_abstype [code abstype]: "Abs_sum512 (Rep_sum512 x) = x"
  by (rule Rep_sum512_inverse)

lemma Rep_mem_sum512 [code abstract]:
  "Rep_sum512 (mem_sum512 bs) = take 64 (bs @ replicate 64 0)"
  by (simp add: mem_sum512_def Abs_sum512_inverse)

subsection \<open>Hexadecimal digits\<close>

lemma hex_digits_hextable: "map hex_digit [0..<16] = hextable"
  by code_simp
lemma hextable_nth: "n < 16 \<Longrightarrow> hextable ! n = hex_digit n"
proof -
  assume n: "n < 16"
  have "hextable ! n = map hex_digit [0..<16] ! n" by (simp only: hex_digits_hextable)
  also have "\<dots> = hex_digit n" using n by (simp del: upt_Suc)
  finally show ?thesis .
qed
lemma unat_and_15: "unat (v AND 15) = unat v mod 16" for v :: byte
proof -
  have "(15 :: byte) = mask 4" by (simp add: mask_eq_exp_minus_1)
  then have "v AND 15 = take_bit 4 v" by (simp add: take_bit_eq_mask)
  then show ?thesis by (simp add: take_bit_eq_mod unat_mod)
qed
lemma unat_drop_bit_4: "unat (drop_bit 4 v) = unat v div 16" for v :: byte
  by (simp add: drop_bit_eq_div unat_div)
lemma hex_EncodeToString_lower_hex: "hex_EncodeToString bs = lower_hex bs"
proof (induction bs)
  case Nil
  show ?case by (simp add: lower_hex_def)
next
  case (Cons v bs)
  have "unat v < 256" using unsigned_less [of v] by simp
  then have a: "unat v div 16 < 16" and b: "unat v mod 16 < 16" by simp_all
  from Cons show ?case
    by (simp add: lower_hex_def unat_and_15 unat_drop_bit_4 hextable_nth a b)
qed
lemma length_lower_hex: "length (lower_hex bs) = 2 * length bs"
  by (induction bs) (simp_all add: lower_hex_def)
lemma hex_digit_in: "n < 16 \<Longrightarrow> hex_digit n \<in> set hextable"
  using hextable_nth [of n] nth_mem [of n hextable] by (simp add: hextable_def)
lemma set_lower_hex: "set (lower_hex bs) \<subseteq> set hextable"
proof (induction bs)
  case Nil
  show ?case by (simp add: lower_hex_def)
next
  case (Cons v bs)
  have "unat v < 256" using unsigned_less [of v] by simp
  then have a: "unat v div 16 < 16" and b: "unat v mod 16 < 16" by simp_all
  from Cons hex_digit_in [OF a] hex_digit_in [OF b] show ?case
    by (simp add: lower_hex_def)
qed
lemma block_checksum_eq:
  "block_checksum e block = Inr (spec_digest (Rep_sum512 (Sum512 e block)))"
proof -
  have "length (Rep_sum512 (Sum512 e block)) = 64"
    using Rep_sum512 [of "Sum512 e block"] by simp
  then show ?thesis
    by (simp add: block_checksum_def slice_def PRESERVED_CHECKSUM_LENGTH_def spec_digest_def
        hex_EncodeToString_lower_hex length_lower_hex)
qed
lemma length_spec_digest: "length bs = 64 \<Longrightarrow> length (spec_digest bs) = 64"
  by (simp add: spec_digest_def length_lower_hex)
lemma spec_digest_prefix: "spec_digest bs = lower_hex (take 32 bs)"
proof -
  have "take (2 * n) (lower_hex bs) = lower_hex (take n bs)" for n
  proof (induction bs arbitrary: n)
    case Nil
    show ?case by (simp add: lower_hex_def)
  next
    case (Cons v bs)
    show ?case
    proof (cases n)
      case 0
      then show ?thesis by (simp add: lower_hex_def)
    next
      case (Suc m)
      with Cons [of m] show ?thesis by (simp add: lower_hex_def)
    qed
  qed
  from this [of 32] show ?thesis by (simp add: spec_digest_def)
qed

subsection \<open>Cleaned paths\<close>

lemma split_sep_not_Nil: "split_sep xs \<noteq> []"
  by (induction xs) (auto split: list.splits)

lemma split_sep_append:
  "split_sep (xs @ CHR ''/'' # ys) = split_sep xs @ split_sep ys"
proof (induction xs)
  case Nil
  show ?case by simp
next
  case (Cons c xs)
  obtain w ws where w: "split_sep xs = w # ws"
    using split_sep_not_Nil [of xs] by (cases "split_sep xs") auto
  with Cons show ?case by simp
qed

lemma split_sep_plain: "CHR ''/'' \<notin> set xs \<Longrightarrow> split_sep xs = [xs]"
  by (induction xs) auto

lemma clean_elems_append:
  "clean_elems rooted (es @ fs) out = clean_elems rooted fs (clean_elems rooted es out)"
  by (induction es arbitrary: out) auto

lemma strings_Join_snoc:
  "xs \<noteq> [] \<Longrightarrow> strings_Join (xs @ [e]) = strings_Join xs @ ''/'' @ e"
  by (induction xs rule: strings_Join.induct) simp_all

lemma clean_elems_plain: "plain e \<Longrightarrow> clean_elems rooted [e] out = out @ [e]"
  by (simp add: plain_def)

lemma clean_elems_snoc:
  "plain e \<Longrightarrow> clean_elems rooted (es @ [e]) out = clean_elems rooted es out @ [e]"
  by (simp only: clean_elems_append clean_elems_plain)

lemma split_volume_path:
  assumes "CHR ''/'' \<notin> set v"
  shows "split_sep (strings_Join [BLOCKSTORE_BASE, VOLUME_DIRECTORY, v])
          = [BLOCKSTORE_BASE, VOLUME_DIRECTORY, v]"
proof -
  have j: "strings_Join [BLOCKSTORE_BASE, VOLUME_DIRECTORY, v]
      = BLOCKSTORE_BASE @ CHR ''/'' # (VOLUME_DIRECTORY @ CHR ''/'' # v)" by simp
  have b: "split_sep BLOCKSTORE_BASE = [BLOCKSTORE_BASE]"
    by (rule split_sep_plain) (simp add: BLOCKSTORE_BASE_def)
  have d: "split_sep VOLUME_DIRECTORY = [VOLUME_DIRECTORY]"
    by (rule split_sep_plain) (simp add: VOLUME_DIRECTORY_def)
  have v: "split_sep v = [v]"
    using assms by (rule split_sep_plain)
  show ?thesis
    unfolding j split_sep_append b d v by simp
qed

lemma clean_volume_elems:
  "clean_elems False [BLOCKSTORE_BASE, VOLUME_DIRECTORY, v] [] = volume_elems v"
  by (simp add: volume_elems_def BLOCKSTORE_BASE_def VOLUME_DIRECTORY_def)

lemma getVolumePath_elems:
  assumes "CHR ''/'' \<notin> set v"
  shows "getVolumePath v = strings_Join (volume_elems v)"
proof -
  let ?p = "strings_Join [BLOCKSTORE_BASE, VOLUME_DIRECTORY, v]"
  have ne: "?p \<noteq> []" and hd: "hd ?p \<noteq> CHR ''/''"
    by (simp_all add: BLOCKSTORE_BASE_def)
  have out: "strings_Join (volume_elems v) \<noteq> []"
    by (simp add: volume_elems_def BLOCKSTORE_BASE_def)
  have "filepath_Clean ?p = strings_Join (volume_elems v)"
    using ne hd out
    by (simp only: filepath_Clean_def Let_def split_volume_path [OF assms]
        clean_volume_elems if_False)
  moreover have "getVolumePath v = filepath_Clean ?p"
    by (simp add: getVolumePath_def filepath_Join_def BLOCKSTORE_BASE_def)
  ultimately show ?thesis by simp
qed

lemma volume_elems_not_Nil: "volume_elems v \<noteq> []"
  by (simp add: volume_elems_def)

lemma clean_volume_elems_idem:
  assumes "CHR ''/'' \<notin> set v"
  shows "clean_elems False (split_sep (strings_Join (volume_elems v))) [] = volume_elems v"
proof -
  have b: "split_sep BLOCKSTORE_BASE = [BLOCKSTORE_BASE]"
    by (rule split_sep_plain) (simp add: BLOCKSTORE_BASE_def)
  have d: "split_sep VOLUME_DIRECTORY = [VOLUME_DIRECTORY]"
    by (rule split_sep_plain) (simp add: VOLUME_DIRECTORY_def)
  have v: "split_sep v = [v]"
    using assms by (rule split_sep_plain)
  have "split_sep (strings_Join (volume_elems v)) = volume_elems v"
    by (simp add: volume_elems_def split_sep_append b d v)
  moreover have "clean_elems False (volume_elems v) [] = volume_elems v"
    by (simp add: volume_elems_def BLOCKSTORE_BASE_def VOLUME_DIRECTORY_def)
  ultimately show ?thesis by simp
qed

lemma join_under_volume_path:
  assumes v: "CHR ''/'' \<notin> set v" and a: "plain a" and b: "plain b" and c: "plain c"
  shows "filepath_Join [getVolumePath v, a, b, c]
           = getVolumePath v @ ''/'' @ a @ ''/'' @ b @ ''/'' @ c"
proof -
  let ?P = "getVolumePath v"
  let ?p = "strings_Join [?P, a, b, c]"
  have P: "?P = strings_Join (volume_elems v)" using v by (rule getVolumePath_elems)
  have Pne: "?P \<noteq> []" and Phd: "hd ?P \<noteq> CHR ''/''"
    by (simp_all add: P volume_elems_def BLOCKSTORE_BASE_def)
  have p: "?p = ?P @ CHR ''/'' # (a @ CHR ''/'' # (b @ CHR ''/'' # c))" by simp
  have ne: "?p \<noteq> []" and hd: "hd ?p \<noteq> CHR ''/''"
    using Pne Phd by simp_all
  have sa: "split_sep a = [a]" and sb: "split_sep b = [b]" and sc: "split_sep c = [c]"
    using a b c by (simp_all add: plain_def split_sep_plain)
  have "split_sep ?p = ((split_sep ?P @ [a]) @ [b]) @ [c]"
    unfolding p split_sep_append sa sb sc by simp
  then have "clean_elems False (split_sep ?p) []
      = ((clean_elems False (split_sep ?P) [] @ [a]) @ [b]) @ [c]"
    by (simp only: clean_elems_snoc [OF a] clean_elems_snoc [OF b] clean_elems_snoc [OF c])
  then have "clean_elems False (split_sep ?p) [] = volume_elems v @ [a, b, c]"
    using clean_volume_elems_idem [OF v] by (simp add: P)
  moreover have "strings_Join (volume_elems v @ [a, b, c])
      = ?P @ ''/'' @ a @ ''/'' @ b @ ''/'' @ c"
    using strings_Join_snoc [of "volume_elems v" a]
      strings_Join_snoc [of "volume_elems v @ [a]" b]
      strings_Join_snoc [of "volume_elems v @ [a, b]" c]
    by (simp add: volume_elems_not_Nil P)
  ultimately have "filepath_Clean ?p = ?P @ ''/'' @ a @ ''/'' @ b @ ''/'' @ c"
    using ne hd Pne by (simp add: filepath_Clean_def Let_def)
  moreover have "filepath_Join [?P, a, b, c] = filepath_Clean ?p"
    using Pne by (simp add: filepath_Join_def)
  ultimately show ?thesis by simp
qed

lemma plain_hex:
  assumes "set s \<subseteq> set hextable" and "s \<noteq> []"
  shows "plain s"
proof -
  have "CHR ''/'' \<notin> set hextable" and "CHR ''.'' \<notin> set hextable"
    by (simp_all add: hextable_def)
  with assms have "CHR ''/'' \<notin> set s" and "CHR ''.'' \<notin> set s" by auto
  with assms(2) show ?thesis by (auto simp: plain_def)
qed

lemma getBlockPathAndFileName_eq:
  "getBlockPathAndFileName volumeId checksum =
     (if length checksum < 4 then Inl (Panic ''slice bounds out of range'')
      else Inr (filepath_Join [getVolumePath volumeId, BLOCKS_DIRECTORY,
                  take 2 checksum, take 2 (drop 2 checksum)],
                checksum @ ''.blk''))"
  by (simp add: getBlockPathAndFileName_def slice_def BLOCK_SEPARATE_LAYER1_def
      BLOCK_SEPARATE_LAYER2_def)

subsection \<open>The claims\<close>

text \<open>
  C4. For every block buffer (of any length, so of \<open>block_size\<close> bytes too) the checksum
  computed in \<open>BackupSnapshot\<close> is the first 64 characters of the SHA-512 of the block
  written in lower-case hexadecimal: it has length 64 and only the digits 0-9 and a-f.
  For a volume id without path separator, \<open>getBlockPathAndFileName\<close> gives the path
  \<open>blocks/<d[0:2]>/<d[2:4]>\<close> under the volume directory and the file name \<open><d>.blk\<close>.
\<close>

theorem block_checksum_and_location:
  assumes "CHR ''/'' \<notin> set volumeId"
  shows "\<exists>d. block_checksum e block = Inr d
      \<and> d = spec_digest (Rep_sum512 (Sum512 e block))
      \<and> length d = 64 \<and> set d \<subseteq> set ''0123456789abcdef''
      \<and> getBlockPathAndFileName volumeId d =
          Inr (getVolumePath volumeId @ ''/blocks/'' @ take 2 d @ ''/'' @ take 2 (drop 2 d),
               d @ ''.blk'')"
proof -
  let ?d = "spec_digest (Rep_sum512 (Sum512 e block))"
  have len: "length ?d = 64"
    using Rep_sum512 [of "Sum512 e block"] by (simp add: length_spec_digest)
  have hex: "set ?d \<subseteq> set hextable"
    using set_lower_hex [of "Rep_sum512 (Sum512 e block)"] set_take_subset
    by (fastforce simp: spec_digest_def)
  have "set (take 2 ?d) \<subseteq> set hextable"
    using hex set_take_subset [of 2 ?d] by blast
  moreover have "take 2 ?d \<noteq> []" using len by auto
  ultimately have a: "plain (take 2 ?d)" by (rule plain_hex)
  have "set (take 2 (drop 2 ?d)) \<subseteq> set hextable"
    using hex set_take_subset [of 2 "drop 2 ?d"] set_drop_subset [of 2 ?d] by blast
  moreover have "take 2 (drop 2 ?d) \<noteq> []" using len by auto
  ultimately have b: "plain (take 2 (drop 2 ?d))" by (rule plain_hex)
  have c: "plain BLOCKS_DIRECTORY" by (simp add: plain_def BLOCKS_DIRECTORY_def)
  have "getBlockPathAndFileName volumeId ?d =
      Inr (getVolumePath volumeId @ ''/blocks/'' @ take 2 ?d @ ''/'' @ take 2 (drop 2 ?d),
           ?d @ ''.blk'')"
    using len join_under_volume_path [OF assms c a b]
    by (simp add: getBlockPathAndFileName_eq BLOCKS_DIRECTORY_def)
  with len hex show ?thesis
    by (simp add: block_checksum_eq hextable_def)
qed

theorem block_checksum_and_location_witness:
  "CHR ''/'' \<notin> set ''vol1''
   \<and> block_checksum mem_env [1, 2, 3] =
       Inr ''0102030000000000000000000000000000000000000000000000000000000000''
   \<and> getBlockPathAndFileName ''vol1''
        ''0102030000000000000000000000000000000000000000000000000000000000'' =
       Inr (''rancher-blockstore/volume/vol1/blocks/01/02'',
            ''0102030000000000000000000000000000000000000000000000000000000000.blk'')"
proof -
  have h: "CHR ''/'' \<notin> set ''vol1''" by simp
  have v: "getVolumePath ''vol1'' = ''rancher-blockstore/volume/vol1''" by code_simp
  have d: "block_checksum mem_env [1, 2, 3] =
      Inr ''0102030000000000000000000000000000000000000000000000000000000000''"
    by code_simp
  from block_checksum_and_location [OF h, of mem_env "[1, 2, 3]"]
  obtain d' where c: "block_checksum mem_env [1, 2, 3] = Inr d'"
    and loc: "getBlockPathAndFileName ''vol1'' d' =
          Inr (getVolumePath ''vol1'' @ ''/blocks/'' @ take 2 d' @ ''/'' @ take 2 (drop 2 d'),
               d' @ ''.blk'')"
    by blast
  from c d have "d' = ''0102030000000000000000000000000000000000000000000000000000000000''"
    by simp
  with loc v have "getBlockPathAndFileName ''vol1''
        ''0102030000000000000000000000000000000000000000000000000000000000'' =
       Inr (''rancher-blockstore/volume/vol1/blocks/01/02'',
            ''0102030000000000000000000000000000000000000000000000000000000000.blk'')"
    by simp
  with h d show ?thesis by simp
qed

text \<open>
  C10. \<open>getBlockPathAndFileName\<close> panics on its slice expressions exactly when the
  checksum has fewer than 4 characters. The checksum that \<open>BackupSnapshot\<close> computes
  always exists and has 64 characters, and on it the function returns a path and a
  file name.
\<close>

theorem getBlockPathAndFileName_in_bounds:
  "(getBlockPathAndFileName volumeId checksum = Inl (Panic ''slice bounds out of range'')
      \<longleftrightarrow> length checksum < 4)
   \<and> (4 \<le> length checksum \<longrightarrow>
        (\<exists>path. getBlockPathAndFileName volumeId checksum = Inr (path, checksum @ ''.blk'')))
   \<and> (\<exists>d. block_checksum e block = Inr d \<and> length d = 64
        \<and> (\<exists>path. getBlockPathAndFileName volumeId d = Inr (path, d @ ''.blk'')))"
proof -
  have "length (spec_digest (Rep_sum512 (Sum512 e block))) = 64"
    using Rep_sum512 [of "Sum512 e block"] by (simp add: length_spec_digest)
  then show ?thesis
    by (simp add: getBlockPathAndFileName_eq block_checksum_eq)
qed

theorem getBlockPathAndFileName_in_bounds_witness:
  "getBlockPathAndFileName ''vol1'' ''abc'' = Inl (Panic ''slice bounds out of range'')
   \<and> (4::nat) \<le> length ''abcdef''
   \<and> getBlockPathAndFileName ''vol1'' ''abcdef'' =
        Inr (''rancher-blockstore/volume/vol1/blocks/ab/cd'', ''abcdef.blk'')"
proof -
  have p: "getBlockPathAndFileName ''vol1'' ''abcdef'' =
        Inr (''rancher-blockstore/volume/vol1/blocks/ab/cd'', ''abcdef.blk'')"
    by code_simp
  from getBlockPathAndFileName_in_bounds [of "''vol1''" "''abc''" mem_env "[]"]
  have "getBlockPathAndFileName ''vol1'' ''abc'' = Inl (Panic ''slice bounds out of range'')"
    by simp
  with p show ?thesis by simp
qed

section \<open>The driver registry\<close>

text \<open>
  C9. \<open>RegisterDriver\<close> returns an error when the kind is already in the map of
  initializers and then leaves the map as it is; otherwise it returns no error and
  the map holds the constructor at that kind and is unchanged at every other kind.
\<close>

theorem RegisterDriver_registers_once:
  "(kind \<in> dom inits \<longrightarrow>
      RegisterDriver inits kind initFunc = (inits, Some (DriverAlreadyRegistered kind)))
   \<and> (kind \<notin> dom inits \<longrightarrow>
        snd (RegisterDriver inits kind initFunc) = None
        \<and> fst (RegisterDriver inits kind initFunc) kind = Some initFunc
        \<and> (\<forall>k. k \<noteq> kind \<longrightarrow> fst (RegisterDriver inits kind initFunc) k = inits k))"
  by (simp add: RegisterDriver_def)

theorem RegisterDriver_registers_once_witness:
  "''vfs'' \<in> dom [''vfs'' \<mapsto> (1::nat)]
   \<and> RegisterDriver [''vfs'' \<mapsto> (1::nat)] ''vfs'' 2
        = ([''vfs'' \<mapsto> 1], Some (DriverAlreadyRegistered ''vfs''))
   \<and> ''s3'' \<notin> dom [''vfs'' \<mapsto> (1::nat)]
   \<and> snd (RegisterDriver [''vfs'' \<mapsto> (1::nat)] ''s3'' 2) = None
   \<and> fst (RegisterDriver [''vfs'' \<mapsto> (1::nat)] ''s3'' 2) ''s3'' = Some 2
   \<and> fst (RegisterDriver [''vfs'' \<mapsto> (1::nat)] ''s3'' 2) ''vfs'' = Some 1"
proof -
  have a: "''vfs'' \<in> dom [''vfs'' \<mapsto> (1::nat)]"
    and b: "''s3'' \<notin> dom [''vfs'' \<mapsto> (1::nat)]"
    by simp_all
  from RegisterDriver_registers_once [of "''vfs''" "[''vfs'' \<mapsto> (1::nat)]" 2]
    RegisterDriver_registers_once [of "''s3''" "[''vfs'' \<mapsto> (1::nat)]" 2] a b
  show ?thesis by simp
qed

section \<open>Runs on the instance in memory\<close>

lemma ex_names:
  "getConfigFilename ''/var/lib/volmgr'' ''bs1'' = ''/var/lib/volmgr/bs1.cfg''"
  "getDriverConfigFilename ''/var/lib/volmgr'' ''mem'' ''bs1'' = ''/var/lib/volmgr/bs1-mem.cfg''"
  "getVolumePath ''vol1'' = ''rancher-blockstore/volume/vol1''"
  "getSnapshotsPath ''vol1'' = ''rancher-blockstore/volume/vol1/snapshots''"
  "getSnapshotConfigName ''s1'' = ''snapshot-s1.cfg''"
  "filepath_Join [''rancher-blockstore/volume/vol1/snapshots'', ''snapshot-s1.cfg'']
     = ''rancher-blockstore/volume/vol1/snapshots/snapshot-s1.cfg''"
  "filepath_Join [BLOCKSTORE_BASE, VOLUME_DIRECTORY, ''vol1''] = ''rancher-blockstore/volume/vol1''"
  "filepath_Join [''rancher-blockstore/volume/vol1'', ''volume.cfg'']
     = ''rancher-blockstore/volume/vol1/volume.cfg''"
  by code_simp+

lemma zero_block_checksum: "block_checksum mem_env zero_block = Inr zero_digest"
proof -
  have "take 64 (zero_block @ replicate 64 0) = replicate 64 (0 :: byte)"
    by (simp add: zero_block_def)
  moreover have "hex_EncodeToString (replicate 64 0) = zero_digest @ zero_digest"
    by code_simp
  ultimately show ?thesis
    by (simp add: block_checksum_def mem_env_def Rep_mem_sum512 slice_def
        PRESERVED_CHECKSUM_LENGTH_def zero_digest_def)
qed

lemma zero_block_location:
  "getBlockPathAndFileName ''vol1'' zero_digest =
     Inr (''rancher-blockstore/volume/vol1/blocks/00/00'', zero_digest @ ''.blk'')"
  by code_simp

lemma zero_block_name:
  "filepath_Join [''rancher-blockstore/volume/vol1/blocks/00/00'', zero_digest @ ''.blk'']
     = ''rancher-blockstore/volume/vol1/blocks/00/00/'' @ zero_digest @ ''.blk''"
  by code_simp


lemma length_zero_block: "length zero_block = 2097152"
  by (simp add: zero_block_def)

lemma ex_source_read:
  "length buf = 2097152 \<Longrightarrow>
   ReadSnapshot ex_source s snapshotId volumeId offset buf = (Suc s, Inr zero_block)"
  by (simp add: ex_source_def mem_source_def zero_block_def)

lemma mem_driver_simps:
  "FileExists mem_driver r path name \<longleftrightarrow> map_of r (filepath_Join [path, name]) \<noteq> None"
  "FileSize mem_driver r path name =
     (case map_of r (filepath_Join [path, name]) of None \<Rightarrow> - 1 | Some data \<Rightarrow> int (length data))"
  "MkDirAll mem_driver r dir = (r, None)"
  "Write mem_driver r data path name = ((filepath_Join [path, name], data) # r, None)"
  by (simp_all add: mem_driver_def)

lemma S1_blocks:
  "backup_mappings mem_env mem_driver ex_source ''s1'' ''vol1'' 2097152 2097152
     (Mappings ex_delta) ([], 0, [])
   = (([(''rancher-blockstore/volume/vol1/blocks/00/00/'' @ zero_digest @ ''.blk'', zero_block)],
       3, [\<lparr>Offset = 0, Block = zero_digest\<rparr>]), None)"
proof -
  have buf: "replicate (unat (2097152 :: 32 word)) (0 :: byte) = zero_block"
    by (simp add: zero_block_def)
  have n: "(6291456 :: 64 word) div ucast (2097152 :: 32 word) = 3" by simp
  show ?thesis
    by (simp add: ex_delta_def buf n backup_blocks.simps ex_source_read length_zero_block
        zero_block_checksum zero_block_location zero_block_name mem_driver_simps
        del: append.simps append_Cons append_Nil)
qed

lemma mem_env_simps:
  "LoadConfig mem_env = mem_LoadConfig"
  "SaveConfig mem_env = mem_SaveConfig"
  "MarshalVolume mem_env = mem_MarshalVolume"
  "MarshalSnapshotMap mem_env = mem_MarshalSnapshotMap"
  "UnmarshalSnapshotMap mem_env = mem_UnmarshalSnapshotMap"
  "GetBlockStoreDriver (initializers mem_env) ''mem'' configFile id' config = Inr mem_driver"
  by (simp_all add: mem_env_def GetBlockStoreDriver_def)

lemma ex_local_load:
  "mem_LoadConfig (ex_local lastId) ''/var/lib/volmgr/bs1.cfg'' = Inr (ex_blockstore lastId)"
  by (simp add: mem_LoadConfig_def ex_local_def)

lemma ex_blockstore_simps:
  "Kind (ex_blockstore lastId) = ''mem''"
  "BlockSize (ex_blockstore lastId) = 2097152"
  "Volumes (ex_blockstore lastId) ''vol1'' =
     Some \<lparr>Size = 6291456, Base = '''', LastSnapshotId = lastId\<rparr>"
  by (simp_all add: ex_blockstore_def DEFAULT_BLOCK_SIZE_def)

lemma s1_marshal:
  "mem_MarshalSnapshotMap \<lparr>Id' = ''s1'', Blocks = [\<lparr>Offset = 0, Block = zero_digest\<rparr>]\<rparr>
     = Inr s1_manifest"
  by (simp add: mem_MarshalSnapshotMap_def s1_manifest_def)

lemma s1_unmarshal:
  "mem_UnmarshalSnapshotMap s1_manifest =
     Inr \<lparr>Id' = ''s1'', Blocks = [\<lparr>Offset = 0, Block = zero_digest\<rparr>]\<rparr>"
  by code_simp

lemma ex_source_compare:
  "CompareSnapshot ex_source s new old vol = (s, Inr ex_delta)"
  by (simp add: ex_source_def mem_source_def)

lemma S1_run:
  "BackupSnapshot mem_env ''/var/lib/volmgr'' ''s1'' ''vol1'' ''bs1'' ex_source
     (ex_local '''', [], 0)
   = (((''/var/lib/volmgr/bs1.cfg'', ex_blockstore '''') # ex_local '''',
       [(''rancher-blockstore/volume/vol1/snapshots/snapshot-s1.cfg'', s1_manifest),
        (''rancher-blockstore/volume/vol1/blocks/00/00/'' @ zero_digest @ ''.blk'', zero_block)],
       3), None)"
proof -
  have d: "Mappings.BlockSize ex_delta = 2097152" by (simp add: ex_delta_def)
  have m: "mergeSnapshotMap ''s1'' \<lparr>Id' = '''', Blocks = [\<lparr>Offset = 0, Block = zero_digest\<rparr>]\<rparr>
             \<lparr>Id' = '''', Blocks = []\<rparr>
           = \<lparr>Id' = ''s1'', Blocks = [\<lparr>Offset = 0, Block = zero_digest\<rparr>]\<rparr>"
    by (simp add: mergeSnapshotMap_def)
  have n: "''rancher-blockstore/volume/vol1/snapshots/snapshot-s1.cfg''
      \<noteq> ''rancher-blockstore/volume/vol1/blocks/00/00/'' @ zero_digest @ ''.blk''"
    by simp
  show ?thesis
    using n
    by (simp add: BackupSnapshot_def ex_names mem_env_simps ex_local_load ex_blockstore_simps
        load_last_snapshot_map_def ex_source_compare d S1_blocks m s1_marshal
        mem_driver_simps mem_SaveConfig_def
        del: append.simps append_Cons append_Nil)
qed

lemma empty_local_load:
  "mem_LoadConfig empty_local ''/var/lib/volmgr/bs1.cfg'' = Inr empty_blockstore"
  by (simp add: mem_LoadConfig_def empty_local_def)

lemma AddVolume_run:
  "AddVolume mem_env ''/var/lib/volmgr'' ''bs1'' ''vol1'' '''' 6291456
     (empty_local, [(''rancher-blockstore/volume/vol1/volume.cfg'', [1])])
   = (((''/var/lib/volmgr/bs1.cfg'', ex_blockstore '''') # empty_local,
       [(''rancher-blockstore/volume/vol1/volume.cfg'', [1])]),
      Some VolumeConfigAlreadyExisted)"
  by (simp add: AddVolume_def ex_names mem_env_simps empty_local_load empty_blockstore_def
      ex_blockstore_def mem_driver_simps mem_SaveConfig_def mem_MarshalVolume_def
      VOLUME_CONFIG_FILE_def)

lemma RemoveVolume_run:
  "RemoveVolume mem_env ''/var/lib/volmgr'' ''bs1'' ''vol1'' (ex_local '''', [])
   = (((''/var/lib/volmgr/bs1.cfg'', empty_blockstore) # ex_local '''', []), None)"
  by (simp add: RemoveVolume_def ex_names mem_env_simps ex_local_load empty_blockstore_def
      ex_blockstore_def mem_driver_def mem_SaveConfig_def)

section \<open>The local record in the three operations\<close>

lemma AddVolume_local:
  assumes "LoadConfig e l (getConfigFilename root id') = Inr b"
  shows "fst (fst (AddVolume e root id' volumeId base size' (l, r))) = l
    \<or> fst (fst (AddVolume e root id' volumeId base size' (l, r))) =
        fst (SaveConfig e l (getConfigFilename root id')
          (b\<lparr>Volumes := (Volumes b)(volumeId \<mapsto>
               \<lparr>Size = size', Base = base, LastSnapshotId = ''''\<rparr>)\<rparr>))"
  using assms
  by (simp add: AddVolume_def Let_def split: sum.split prod.split option.split)

lemma RemoveVolume_local:
  assumes "LoadConfig e l (getConfigFilename root id') = Inr b"
  shows "fst (fst (RemoveVolume e root id' volumeId (l, r))) = l
    \<or> fst (fst (RemoveVolume e root id' volumeId (l, r))) =
        fst (SaveConfig e l (getConfigFilename root id')
          (b\<lparr>Volumes := (Volumes b)(volumeId := None)\<rparr>))"
  using assms
  by (simp add: RemoveVolume_def Let_def split: sum.split prod.split option.split)

lemma BackupSnapshot_local:
  assumes "LoadConfig e l (getConfigFilename root blockstoreId) = Inr b"
  shows "fst (fst (BackupSnapshot e root snapshotId volumeId blockstoreId sDriver (l, r, s))) = l
    \<or> fst (fst (BackupSnapshot e root snapshotId volumeId blockstoreId sDriver (l, r, s))) =
        fst (SaveConfig e l (getConfigFilename root blockstoreId) b)"
  using assms
  by (simp add: BackupSnapshot_def Let_def split: sum.split prod.split option.split)

lemma operations_load_failed:
  assumes "LoadConfig e l (getConfigFilename root id') = Inl err"
  shows "AddVolume e root id' volumeId base size' (l, r) = ((l, r), Some err)"
    and "RemoveVolume e root id' volumeId (l, r) = ((l, r), Some err)"
    and "BackupSnapshot e root snapshotId volumeId id' sDriver (l, r, s) = ((l, r, s), Some err)"
  using assms by (simp_all add: AddVolume_def RemoveVolume_def BackupSnapshot_def)

text \<open>
  C8. \<open>AddVolume\<close>, \<open>RemoveVolume\<close> and \<open>BackupSnapshot\<close> each leave the local disk as it
  is or as one \<open>SaveConfig\<close> of a record leaves it, and the \<open>BlockSize\<close> of that record is
  the \<open>BlockSize\<close> of the record that \<open>LoadConfig\<close> gave them. When \<open>LoadConfig\<close> fails
  they save nothing.
\<close>

theorem operations_keep_BlockSize:
  "(\<forall>err. LoadConfig e l (getConfigFilename root id') = Inl err \<longrightarrow>
      fst (fst (AddVolume e root id' volumeId base size' (l, r))) = l
    \<and> fst (fst (RemoveVolume e root id' volumeId (l, r))) = l
    \<and> fst (fst (BackupSnapshot e root snapshotId volumeId id' sDriver (l, r, s))) = l)
   \<and> (\<forall>b. LoadConfig e l (getConfigFilename root id') = Inr b \<longrightarrow>
      (\<exists>b1. BlockSize b1 = BlockSize b
         \<and> (fst (fst (AddVolume e root id' volumeId base size' (l, r))) = l
            \<or> fst (fst (AddVolume e root id' volumeId base size' (l, r)))
                = fst (SaveConfig e l (getConfigFilename root id') b1)))
    \<and> (\<exists>b1. BlockSize b1 = BlockSize b
         \<and> (fst (fst (RemoveVolume e root id' volumeId (l, r))) = l
            \<or> fst (fst (RemoveVolume e root id' volumeId (l, r)))
                = fst (SaveConfig e l (getConfigFilename root id') b1)))
    \<and> (\<exists>b1. BlockSize b1 = BlockSize b
         \<and> (fst (fst (BackupSnapshot e root snapshotId volumeId id' sDriver (l, r, s))) = l
            \<or> fst (fst (BackupSnapshot e root snapshotId volumeId id' sDriver (l, r, s)))
                = fst (SaveConfig e l (getConfigFilename root id') b1))))"
proof (intro conjI allI impI)
  fix b
  assume b: "LoadConfig e l (getConfigFilename root id') = Inr b"
  let ?add = "b\<lparr>Volumes := (Volumes b)(volumeId \<mapsto>
               \<lparr>Size = size', Base = base, LastSnapshotId = ''''\<rparr>)\<rparr>"
  let ?remove = "b\<lparr>Volumes := (Volumes b)(volumeId := None)\<rparr>"
  have "BlockSize ?add = BlockSize b" and "BlockSize ?remove = BlockSize b" by simp_all
  with AddVolume_local [OF b, of volumeId base size' r]
    RemoveVolume_local [OF b, of volumeId r]
    BackupSnapshot_local [OF b, of snapshotId volumeId sDriver r s]
  show "\<exists>b1. BlockSize b1 = BlockSize b
         \<and> (fst (fst (AddVolume e root id' volumeId base size' (l, r))) = l
            \<or> fst (fst (AddVolume e root id' volumeId base size' (l, r)))
                = fst (SaveConfig e l (getConfigFilename root id') b1))"
    and "\<exists>b1. BlockSize b1 = BlockSize b
         \<and> (fst (fst (RemoveVolume e root id' volumeId (l, r))) = l
            \<or> fst (fst (RemoveVolume e root id' volumeId (l, r)))
                = fst (SaveConfig e l (getConfigFilename root id') b1))"
    and "\<exists>b1. BlockSize b1 = BlockSize b
         \<and> (fst (fst (BackupSnapshot e root snapshotId volumeId id' sDriver (l, r, s))) = l
            \<or> fst (fst (BackupSnapshot e root snapshotId volumeId id' sDriver (l, r, s)))
                = fst (SaveConfig e l (getConfigFilename root id') b1))"
    by blast+
qed (simp_all add: operations_load_failed)

theorem operations_keep_BlockSize_witness:
  "LoadConfig mem_env empty_local (getConfigFilename ''/var/lib/volmgr'' ''bs1'')
     = Inr empty_blockstore
   \<and> BlockSize empty_blockstore = 2097152
   \<and> (\<exists>b1. BlockSize b1 = 2097152
        \<and> fst (fst (AddVolume mem_env ''/var/lib/volmgr'' ''bs1'' ''vol1'' '''' 6291456
             (empty_local, [(''rancher-blockstore/volume/vol1/volume.cfg'', [1])])))
           = (''/var/lib/volmgr/bs1.cfg'', b1) # empty_local)
   \<and> LoadConfig mem_env (ex_local '''') (getConfigFilename ''/var/lib/volmgr'' ''bs1'')
     = Inr (ex_blockstore '''')
   \<and> BlockSize (ex_blockstore '''') = 2097152
   \<and> (\<exists>b1. BlockSize b1 = 2097152
        \<and> fst (fst (RemoveVolume mem_env ''/var/lib/volmgr'' ''bs1'' ''vol1'' (ex_local '''', [])))
           = (''/var/lib/volmgr/bs1.cfg'', b1) # ex_local '''')
   \<and> (\<exists>b1. BlockSize b1 = 2097152
        \<and> fst (fst (BackupSnapshot mem_env ''/var/lib/volmgr'' ''s1'' ''vol1'' ''bs1'' ex_source
             (ex_local '''', [], 0)))
           = (''/var/lib/volmgr/bs1.cfg'', b1) # ex_local '''')"
proof -
  let ?cf = "getConfigFilename ''/var/lib/volmgr'' ''bs1''"
  have l0: "LoadConfig mem_env empty_local ?cf = Inr empty_blockstore"
    by (simp add: ex_names mem_env_simps empty_local_load)
  have l1: "LoadConfig mem_env (ex_local '''') ?cf = Inr (ex_blockstore '''')"
    by (simp add: ex_names mem_env_simps ex_local_load)
  have s0: "BlockSize empty_blockstore = 2097152"
    by (simp add: empty_blockstore_def DEFAULT_BLOCK_SIZE_def)
  have s1: "BlockSize (ex_blockstore '''') = 2097152"
    by (simp add: ex_blockstore_simps)
  have n0: "(''/var/lib/volmgr/bs1.cfg'', ex_blockstore '''') # empty_local \<noteq> empty_local"
    and n1: "(''/var/lib/volmgr/bs1.cfg'', empty_blockstore) # ex_local '''' \<noteq> ex_local ''''"
    and n2: "(''/var/lib/volmgr/bs1.cfg'', ex_blockstore '''') # ex_local '''' \<noteq> ex_local ''''"
    by simp_all
  from operations_keep_BlockSize [of mem_env empty_local "''/var/lib/volmgr''" "''bs1''"
      "''vol1''" "''''" 6291456 "[(''rancher-blockstore/volume/vol1/volume.cfg'', [1])]"
      "''s1''" ex_source 0] l0 s0 n0
  have a: "\<exists>b1. BlockSize b1 = 2097152
        \<and> fst (fst (AddVolume mem_env ''/var/lib/volmgr'' ''bs1'' ''vol1'' '''' 6291456
             (empty_local, [(''rancher-blockstore/volume/vol1/volume.cfg'', [1])])))
           = (''/var/lib/volmgr/bs1.cfg'', b1) # empty_local"
    by (simp add: AddVolume_run ex_names mem_env_simps mem_SaveConfig_def)
  from operations_keep_BlockSize [of mem_env "ex_local ''''" "''/var/lib/volmgr''" "''bs1''"
      "''vol1''" "''''" 6291456 "[]" "''s1''" ex_source 0] l1 s1 n1 n2
  have b: "\<exists>b1. BlockSize b1 = 2097152
        \<and> fst (fst (RemoveVolume mem_env ''/var/lib/volmgr'' ''bs1'' ''vol1'' (ex_local '''', [])))
           = (''/var/lib/volmgr/bs1.cfg'', b1) # ex_local ''''"
    and c: "\<exists>b1. BlockSize b1 = 2097152
        \<and> fst (fst (BackupSnapshot mem_env ''/var/lib/volmgr'' ''s1'' ''vol1'' ''bs1'' ex_source
             (ex_local '''', [], 0)))
           = (''/var/lib/volmgr/bs1.cfg'', b1) # ex_local ''''"
    by (simp_all add: RemoveVolume_run S1_run ex_names mem_env_simps mem_SaveConfig_def)
  from l0 l1 s0 s1 a b c show ?thesis by simp
qed

text \<open>
  Whatever the drivers are: when \<open>AddVolume\<close> finds the remote \<open>volume.cfg\<close>, the record
  with the new volume has been saved and the remote directory has been made.
\<close>

lemma AddVolume_remote_config_exists:
  assumes "LoadConfig e l (getConfigFilename root id') = Inr b"
    and "volumeId \<notin> dom (Volumes b)"
    and "GetBlockStoreDriver (initializers e) (Kind b)
           (getDriverConfigFilename root (Kind b) id') id' None = Inr driver"
    and "MkDirAll driver r (filepath_Join [BLOCKSTORE_BASE, VOLUME_DIRECTORY, volumeId])
           = (r1, None)"
    and "SaveConfig e l (getConfigFilename root id')
           (b\<lparr>Volumes := (Volumes b)(volumeId \<mapsto>
                \<lparr>Size = size', Base = base, LastSnapshotId = ''''\<rparr>)\<rparr>) = (l1, None)"
    and "MarshalVolume e \<lparr>Size = size', Base = base, LastSnapshotId = ''''\<rparr> = Inr j"
    and "FileExists driver r1 (getVolumePath volumeId) VOLUME_CONFIG_FILE"
  shows "AddVolume e root id' volumeId base size' (l, r)
           = ((l1, r1), Some VolumeConfigAlreadyExisted)"
  using assms by (simp add: AddVolume_def)

text \<open>
  C3. Claimed: when the remote \<open>volume.cfg\<close> of the volume already exists, \<open>AddVolume\<close>
  fails and nothing is changed, the local record in particular. On a blockstore
  without volumes whose remote store already holds \<open>volume/vol1/volume.cfg\<close>,
  \<open>AddVolume\<close> of \<open>vol1\<close> fails with the error of line 199, but the record it leaves on
  the local disk holds \<open>vol1\<close>: the record is saved (line 188) before the remote file
  is looked for (line 198).
\<close>

theorem AddVolume_saves_before_remote_check:
  "AddVolume mem_env ''/var/lib/volmgr'' ''bs1'' ''vol1'' '''' 6291456
     (empty_local, [(''rancher-blockstore/volume/vol1/volume.cfg'', [1])])
   = (((''/var/lib/volmgr/bs1.cfg'', ex_blockstore '''') # empty_local,
       [(''rancher-blockstore/volume/vol1/volume.cfg'', [1])]),
      Some VolumeConfigAlreadyExisted)
   \<and> mem_LoadConfig empty_local ''/var/lib/volmgr/bs1.cfg'' = Inr empty_blockstore
   \<and> Volumes empty_blockstore ''vol1'' = None
   \<and> mem_LoadConfig ((''/var/lib/volmgr/bs1.cfg'', ex_blockstore '''') # empty_local)
        ''/var/lib/volmgr/bs1.cfg'' = Inr (ex_blockstore '''')
   \<and> Volumes (ex_blockstore '''') ''vol1''
        = Some \<lparr>Size = 6291456, Base = '''', LastSnapshotId = ''''\<rparr>"
proof -
  have a: "mem_LoadConfig ((''/var/lib/volmgr/bs1.cfg'', ex_blockstore '''') # empty_local)
        ''/var/lib/volmgr/bs1.cfg'' = Inr (ex_blockstore '''')"
    by (simp add: mem_LoadConfig_def)
  have b: "Volumes empty_blockstore ''vol1'' = None"
    by (simp add: empty_blockstore_def)
  show ?thesis
    by (simp only: AddVolume_run empty_local_load a b ex_blockstore_simps simp_thms)
qed

section \<open>BackupSnapshot\<close>

lemma Id'_mergeSnapshotMap: "Id' (mergeSnapshotMap snapshotId deltaMap lastMap) = snapshotId"
  by (simp add: mergeSnapshotMap_def)

text \<open>
  On a dedup hit the inner loop goes on to the next block with the blocks of the
  delta map as they were, whatever the drivers are.
\<close>

lemma backup_blocks_dedup_hit:
  assumes "i < n"
    and "ReadSnapshot sDriver s snapshotId volumeId
           (Mapping.Offset d + i * ucast deltaBlockSize) block = (s1, Inr block1)"
    and "block_checksum e block1 = Inr checksum"
    and "getBlockPathAndFileName volumeId checksum = Inr (path, fileName)"
    and "0 \<le> FileSize bsDriver r path fileName"
  shows "backup_blocks e bsDriver sDriver snapshotId volumeId deltaBlockSize d n i
           (r, s, block, blocks)
         = backup_blocks e bsDriver sDriver snapshotId volumeId deltaBlockSize d n (i + 1)
           (r, s1, block1, blocks)"
  using assms by (subst backup_blocks.simps) simp

text \<open>
  C2. Claimed: every dirty block processed in step 6 gets its entry in the delta map,
  also when its upload is skipped as a dedup hit, so that a first backup of three
  identical blocks gives a manifest of 3 entries. In scenario S1 (a first backup of
  a 6 MiB volume of zeros, block size 2 MiB) the run reads three blocks, uploads one
  block file and writes a manifest that holds the single entry at offset 0: for the
  blocks at 2 MiB and 4 MiB the block file is found and the loop continues before
  the append of lines 335-339.
\<close>

theorem BackupSnapshot_dedup_hit_skips_entry:
  "BackupSnapshot mem_env ''/var/lib/volmgr'' ''s1'' ''vol1'' ''bs1'' ex_source
     (ex_local '''', [], 0)
   = (((''/var/lib/volmgr/bs1.cfg'', ex_blockstore '''') # ex_local '''',
       [(''rancher-blockstore/volume/vol1/snapshots/snapshot-s1.cfg'', s1_manifest),
        (''rancher-blockstore/volume/vol1/blocks/00/00/'' @ zero_digest @ ''.blk'', zero_block)],
       3), None)
   \<and> mem_UnmarshalSnapshotMap s1_manifest =
       Inr \<lparr>Id' = ''s1'', Blocks = [\<lparr>Offset = 0, Block = zero_digest\<rparr>]\<rparr>"
  by (simp only: S1_run s1_unmarshal simp_thms)

text \<open>
  C5. In every run of \<open>BackupSnapshot\<close>, either the run returns an error and the local
  disk is as it was, or the run has reached the \<open>SaveConfig\<close> of line 362: then the
  manifest of the snapshot had been marshalled and written to the remote store
  without error, the remote store is as that \<open>Write\<close> left it, and the record saved is
  the record as loaded (so its \<open>LastSnapshotId\<close> is the one loaded).
\<close>

theorem BackupSnapshot_commit_order:
  assumes "BackupSnapshot e root snapshotId volumeId blockstoreId sDriver (l, r, s)
             = ((l', r', s'), res)"
  shows "(\<exists>err. res = Some err \<and> l' = l)
    \<or> (\<exists>b bsDriver r3 j snapshotMap.
          LoadConfig e l (getConfigFilename root blockstoreId) = Inr b
        \<and> GetBlockStoreDriver (initializers e) (Kind b)
             (getDriverConfigFilename root (Kind b) blockstoreId) blockstoreId None = Inr bsDriver
        \<and> Id' snapshotMap = snapshotId
        \<and> MarshalSnapshotMap e snapshotMap = Inr j
        \<and> Write bsDriver r3 j (getSnapshotsPath volumeId) (getSnapshotConfigName snapshotId)
             = (r', None)
        \<and> SaveConfig e l (getConfigFilename root blockstoreId) b = (l', res))"
  using assms
  apply (auto simp: BackupSnapshot_def Let_def
      split: sum.splits prod.splits option.splits if_splits)
     apply (metis Id'_mergeSnapshotMap)+
  done

theorem BackupSnapshot_commit_order_witness:
  "BackupSnapshot mem_env ''/var/lib/volmgr'' ''s1'' ''vol1'' ''bs1'' ex_source
     (ex_local '''', [], 0)
   = (((''/var/lib/volmgr/bs1.cfg'', ex_blockstore '''') # ex_local '''',
       [(''rancher-blockstore/volume/vol1/snapshots/snapshot-s1.cfg'', s1_manifest),
        (''rancher-blockstore/volume/vol1/blocks/00/00/'' @ zero_digest @ ''.blk'', zero_block)],
       3), None)
   \<and> (\<exists>r3 j snapshotMap.
          Id' snapshotMap = ''s1''
        \<and> mem_MarshalSnapshotMap snapshotMap = Inr j
        \<and> Write mem_driver r3 j ''rancher-blockstore/volume/vol1/snapshots'' ''snapshot-s1.cfg''
             = ([(''rancher-blockstore/volume/vol1/snapshots/snapshot-s1.cfg'', s1_manifest),
                 (''rancher-blockstore/volume/vol1/blocks/00/00/'' @ zero_digest @ ''.blk'',
                  zero_block)], None)
        \<and> mem_SaveConfig (ex_local '''') ''/var/lib/volmgr/bs1.cfg'' (ex_blockstore '''')
             = ((''/var/lib/volmgr/bs1.cfg'', ex_blockstore '''') # ex_local '''', None))"
proof -
  from BackupSnapshot_commit_order [OF S1_run]
  obtain b bsDriver r3 j snapshotMap where
    b: "LoadConfig mem_env (ex_local '''') (getConfigFilename ''/var/lib/volmgr'' ''bs1'') = Inr b"
    and d: "GetBlockStoreDriver (initializers mem_env) (Kind b)
             (getDriverConfigFilename ''/var/lib/volmgr'' (Kind b) ''bs1'') ''bs1'' None
            = Inr bsDriver"
    and m: "Id' snapshotMap = ''s1''" "MarshalSnapshotMap mem_env snapshotMap = Inr j"
    and w: "Write bsDriver r3 j (getSnapshotsPath ''vol1'') (getSnapshotConfigName ''s1'')
             = ([(''rancher-blockstore/volume/vol1/snapshots/snapshot-s1.cfg'', s1_manifest),
                 (''rancher-blockstore/volume/vol1/blocks/00/00/'' @ zero_digest @ ''.blk'',
                  zero_block)], None)"
    and s: "SaveConfig mem_env (ex_local '''') (getConfigFilename ''/var/lib/volmgr'' ''bs1'') b
             = ((''/var/lib/volmgr/bs1.cfg'', ex_blockstore '''') # ex_local '''', None)"
    by auto
  from b have b': "b = ex_blockstore ''''"
    by (simp add: ex_names mem_env_simps ex_local_load)
  from d have d': "bsDriver = mem_driver"
    by (simp add: b' ex_blockstore_simps mem_env_simps)
  from m w s show ?thesis
    unfolding b' d' by (simp only: S1_run ex_names mem_env_simps simp_thms) blast
qed

text \<open>
  C7. When the record loads, the driver is found, the volume is in the record with a
  non-empty \<open>LastSnapshotId\<close> and the driver reports the manifest of that snapshot
  absent (\<open>FileSize < 0\<close>), \<open>BackupSnapshot\<close> returns the error of line 287 and leaves
  the local disk, the remote store and the snapshot source as they were: nothing was
  saved, nothing uploaded, and the source was not called, for a read or otherwise.
\<close>

theorem BackupSnapshot_missing_last_snapshot:
  assumes "LoadConfig e l (getConfigFilename root blockstoreId) = Inr b"
    and "GetBlockStoreDriver (initializers e) (Kind b)
           (getDriverConfigFilename root (Kind b) blockstoreId) blockstoreId None = Inr bsDriver"
    and "Volumes b volumeId = Some volume"
    and "LastSnapshotId volume \<noteq> ''''"
    and "FileSize bsDriver r (getSnapshotsPath volumeId)
           (getSnapshotConfigName (LastSnapshotId volume)) < 0"
  shows "BackupSnapshot e root snapshotId volumeId blockstoreId sDriver (l, r, s)
           = ((l, r, s), Some (LastSnapshotDoesntExist (LastSnapshotId volume)))"
  using assms by (simp add: BackupSnapshot_def load_last_snapshot_map_def Let_def)

theorem BackupSnapshot_missing_last_snapshot_witness:
  "LoadConfig mem_env (ex_local ''s0'') (getConfigFilename ''/var/lib/volmgr'' ''bs1'')
     = Inr (ex_blockstore ''s0'')
   \<and> GetBlockStoreDriver (initializers mem_env) (Kind (ex_blockstore ''s0''))
        (getDriverConfigFilename ''/var/lib/volmgr'' (Kind (ex_blockstore ''s0'')) ''bs1'')
        ''bs1'' None = Inr mem_driver
   \<and> Volumes (ex_blockstore ''s0'') ''vol1''
        = Some \<lparr>Size = 6291456, Base = '''', LastSnapshotId = ''s0''\<rparr>
   \<and> FileSize mem_driver [] (getSnapshotsPath ''vol1'') (getSnapshotConfigName ''s0'') < 0
   \<and> BackupSnapshot mem_env ''/var/lib/volmgr'' ''s1'' ''vol1'' ''bs1'' ex_source
        (ex_local ''s0'', [], 0)
      = ((ex_local ''s0'', [], 0), Some (LastSnapshotDoesntExist ''s0''))"
proof -
  let ?v = "\<lparr>Size = 6291456, Base = '''', LastSnapshotId = ''s0''\<rparr>"
  have h1: "LoadConfig mem_env (ex_local ''s0'') (getConfigFilename ''/var/lib/volmgr'' ''bs1'')
     = Inr (ex_blockstore ''s0'')"
    by (simp add: ex_names mem_env_simps ex_local_load)
  have h2: "GetBlockStoreDriver (initializers mem_env) (Kind (ex_blockstore ''s0''))
        (getDriverConfigFilename ''/var/lib/volmgr'' (Kind (ex_blockstore ''s0'')) ''bs1'')
        ''bs1'' None = Inr mem_driver"
    by (simp add: ex_blockstore_simps mem_env_simps)
  have h3: "Volumes (ex_blockstore ''s0'') ''vol1'' = Some ?v"
    by (simp add: ex_blockstore_simps)
  have h4: "LastSnapshotId ?v \<noteq> ''''" by simp
  have h5: "FileSize mem_driver [] (getSnapshotsPath ''vol1'')
              (getSnapshotConfigName (LastSnapshotId ?v)) < 0"
    by (simp add: mem_driver_simps)
  from BackupSnapshot_missing_last_snapshot [OF h1 h2 h3 h4 h5, of "''s1''" ex_source 0]
    h1 h2 h3 h5
  show ?thesis by simp
qed

end
